theory Spec2Isabelle
  imports Main
begin

section \<open>The schema: database/hospital_appointment_pg.sql\<close>

text \<open>
  The hospital appointment system is an Express application over a PostgreSQL schema.
  The embedding follows the two layers of the code: the schema (table \<open>appointments\<close>, its
  constraints, triggers and stored functions), and the JavaScript models and routes that
  issue statements against it.

  A \<open>DATE\<close> is its day number, a \<open>TIME\<close> is the second of the day (\<open>09:00\<close> is 32400),
  a timestamp is \<open>date * 86400 + time\<close>.  Every integer column is an \<open>int\<close>; the columns
  \<open>created_at\<close> and \<open>updated_at\<close> are left out, no statement below reads them.
\<close>

datatype appointment_status = scheduled | checked_in | completed | cancelled

text \<open>
  A row of the table \<open>appointments\<close>.  The column \<open>status\<close> is the only nullable one that a
  query reads (\<open>None\<close> is SQL's \<open>NULL\<close>, which the update route stores when the request
  gives \<open>"status": null\<close>); the primary key \<open>id\<close> is the field \<open>appt_id\<close>, the column \<open>notes\<close>
  the field \<open>appt_notes\<close>.
\<close>

record appointment =
  appt_id :: int
  patient_id :: int
  doctor_id :: int
  appointment_date :: int
  appointment_time :: int
  duration_minutes :: int
  status :: "appointment_status option"
  appt_notes :: string

text \<open>
  The database: the rows of \<open>patients\<close> and \<open>doctors\<close> (id and \<open>full_name\<close>), the rows of
  \<open>appointments\<close>, the sequence behind \<open>appointments.id\<close>, and whether the stored function
  \<open>check_appointment_conflict\<close> is installed (the booking route falls back to the model's
  own query when calling it fails).
\<close>

record database =
  patients :: "(int \<times> string) list"
  doctors :: "(int \<times> string) list"
  appointments :: "appointment list"
  appointments_id_seq :: int
  conflict_function_installed :: bool

text \<open>The SQLSTATE classes the statements below can raise.\<close>

datatype db_error =
    raise_exception string
  | unique_violation
  | foreign_key_violation
  | not_null_violation
  | numeric_value_out_of_range
  | invalid_text_representation

datatype tg_op = INSERT | UPDATE

text \<open>
  \<open>time + (minutes || ' minutes')::INTERVAL\<close>: PostgreSQL adds the interval and reduces
  the result modulo one day, so \<open>23:30 + 30 minutes\<close> is \<open>00:00\<close>.
\<close>

definition time_pl_interval :: "int \<Rightarrow> int \<Rightarrow> int" where
  "time_pl_interval t minutes = (t + 60 * minutes) mod 86400"

text \<open>\<open>appointment_time + (duration_minutes || ' minutes')::INTERVAL\<close> of a stored row.\<close>

definition row_end_time :: "appointment \<Rightarrow> int" where
  "row_end_time a = time_pl_interval (appointment_time a) (duration_minutes a)"

text \<open>
  \<open>status != 'cancelled'\<close> in a \<open>WHERE\<close> clause: a \<open>NULL\<close> status makes the comparison
  \<open>NULL\<close> and the row is not selected.
\<close>

definition status_not_cancelled :: "appointment \<Rightarrow> bool" where
  "status_not_cancelled a = (case status a of None \<Rightarrow> False | Some s \<Rightarrow> s \<noteq> cancelled)"

text \<open>
  The stored function \<open>check_appointment_conflict\<close> (lines 204 to 233).  The table is its
  first argument; \<open>p_exclude_id\<close> is \<open>None\<close> for \<open>NULL\<close>.
\<close>

definition check_appointment_conflict ::
  "appointment list \<Rightarrow> int \<Rightarrow> int \<Rightarrow> int \<Rightarrow> int \<Rightarrow> int option \<Rightarrow> bool" where
  "check_appointment_conflict rows p_doctor_id p_appointment_date p_appointment_time
       p_duration_minutes p_exclude_id =
     (let p_end_time = time_pl_interval p_appointment_time p_duration_minutes;
          conflict_count = length (filter (\<lambda>a.
              doctor_id a = p_doctor_id
            \<and> appointment_date a = p_appointment_date
            \<and> status_not_cancelled a
            \<and> (case p_exclude_id of None \<Rightarrow> True | Some x \<Rightarrow> appt_id a \<noteq> x)
            \<and> ((appointment_time a \<le> p_appointment_time
                  \<and> row_end_time a > p_appointment_time)
               \<or> (appointment_time a < p_end_time
                  \<and> row_end_time a \<ge> p_end_time))) rows)
      in conflict_count > 0)"

text \<open>
  The stored function \<open>check_doctor_overlap\<close> (lines 236 to 255); it returns one row
  holding 1 or 0.  Its \<open>WHERE\<close> clause has no condition on \<open>status\<close>.
\<close>

definition check_doctor_overlap ::
  "appointment list \<Rightarrow> int \<Rightarrow> int \<Rightarrow> int \<Rightarrow> int \<Rightarrow> int option \<Rightarrow> int" where
  "check_doctor_overlap rows p_doctor_id p_date p_start p_duration p_exclude_appt_id =
     (if length (filter (\<lambda>a.
              doctor_id a = p_doctor_id
            \<and> appointment_date a = p_date
            \<and> (case p_exclude_appt_id of None \<Rightarrow> True | Some x \<Rightarrow> appt_id a \<noteq> x)
            \<and> (row_end_time a > p_start
               \<and> time_pl_interval p_start p_duration > appointment_time a)) rows) > 0
      then 1 else 0)"

text \<open>
  The trigger function \<open>trg_appt_no_past_check\<close>; \<open>now\<close> is \<open>NOW()\<close> as a timestamp.
\<close>

definition trg_appt_no_past_check :: "int \<Rightarrow> appointment \<Rightarrow> db_error + appointment" where
  "trg_appt_no_past_check now NEW =
     (if appointment_date NEW * 86400 + appointment_time NEW < now
      then Inl (raise_exception ''Cannot create appointment in the past'')
      else Inr NEW)"

text \<open>The trigger function \<open>trg_appt_no_overlap_check\<close>, for \<open>TG_OP\<close> an insert or an update.\<close>

definition trg_appt_no_overlap_check ::
  "appointment list \<Rightarrow> tg_op \<Rightarrow> appointment \<Rightarrow> db_error + appointment" where
  "trg_appt_no_overlap_check rows TG_OP NEW =
     (let new_end_time = time_pl_interval (appointment_time NEW) (duration_minutes NEW);
          overlap_count = length (filter (\<lambda>a.
              doctor_id a = doctor_id NEW
            \<and> appointment_date a = appointment_date NEW
            \<and> (TG_OP = INSERT \<or> appt_id a \<noteq> appt_id NEW)
            \<and> status_not_cancelled a
            \<and> (row_end_time a > appointment_time NEW
               \<and> new_end_time > appointment_time a)) rows)
      in if overlap_count > 0
         then Inl (raise_exception ''Overlapping appointment exists for this doctor'')
         else Inr NEW)"

section \<open>The models: Appointment.checkOverlap\<close>

text \<open>
  \<open>Appointment.checkOverlap\<close> (server.js, lines 573 to 601) builds the same predicate as
  \<open>check_appointment_conflict\<close> in a query of its own, and appends \<open>AND id != $5\<close> when
  \<open>exclude_id\<close> is truthy (the update route passes its route parameter, a non-empty
  string; the other callers pass nothing).
\<close>

definition checkOverlap ::
  "database \<Rightarrow> int \<Rightarrow> int \<Rightarrow> int \<Rightarrow> int \<Rightarrow> int option \<Rightarrow> bool" where
  "checkOverlap db doctor_id' appointment_date' appointment_time' duration_minutes' exclude_id =
     (let count = length (filter (\<lambda>a.
              doctor_id a = doctor_id'
            \<and> appointment_date a = appointment_date'
            \<and> status_not_cancelled a
            \<and> ((appointment_time a \<le> appointment_time'
                  \<and> row_end_time a > appointment_time')
               \<or> (appointment_time a < time_pl_interval appointment_time' duration_minutes'
                  \<and> row_end_time a \<ge> time_pl_interval appointment_time' duration_minutes'))
            \<and> (case exclude_id of None \<Rightarrow> True | Some x \<Rightarrow> appt_id a \<noteq> x))
            (appointments db))
      in count > 0)"

section \<open>The statements on the table appointments\<close>

definition smallint_ok :: "int \<Rightarrow> bool" where
  "smallint_ok n = (- 32768 \<le> n \<and> n \<le> 32767)"

text \<open>
  The primary key on \<open>id\<close> and the constraint \<open>uq_doctor_datetime\<close>, \<open>UNIQUE (doctor_id,
  appointment_date, appointment_time)\<close>, which has no condition on \<open>status\<close>: does the new
  row collide with a row of the table?
\<close>

definition same_doctor_datetime :: "appointment \<Rightarrow> appointment \<Rightarrow> bool" where
  "same_doctor_datetime a b =
     (doctor_id a = doctor_id b \<and> appointment_date a = appointment_date b
      \<and> appointment_time a = appointment_time b)"

definition violates_unique_on_insert :: "appointment list \<Rightarrow> appointment \<Rightarrow> bool" where
  "violates_unique_on_insert rows NEW =
     (\<exists>a \<in> set rows. appt_id a = appt_id NEW \<or> same_doctor_datetime a NEW)"

definition violates_unique_on_update :: "appointment list \<Rightarrow> appointment \<Rightarrow> bool" where
  "violates_unique_on_update rows NEW =
     (\<exists>a \<in> set rows. appt_id a \<noteq> appt_id NEW \<and> same_doctor_datetime a NEW)"

definition references_ok :: "database \<Rightarrow> appointment \<Rightarrow> bool" where
  "references_ok db NEW =
     (patient_id NEW \<in> fst ` set (patients db) \<and> doctor_id NEW \<in> fst ` set (doctors db))"

text \<open>
  \<open>INSERT INTO appointments (patient_id, doctor_id, appointment_date, appointment_time,
  duration_minutes, status, notes) VALUES ($1, ..., $7) RETURNING id\<close>.  A parameter that
  is \<open>None\<close> is \<open>NULL\<close>.  The steps, in PostgreSQL's order: the parameters are converted
  (\<open>duration_minutes\<close> is a \<open>SMALLINT\<close>); \<open>id\<close> takes the next value of the sequence, which
  stays consumed when the statement fails; the \<open>BEFORE INSERT\<close> triggers run in the
  order of their names (\<open>trg_appt_no_overlap_insert\<close>, then \<open>trg_appt_no_past_insert\<close>);
  then \<open>NOT NULL\<close>, the unique indexes, and the foreign keys.

  The triggers see the new row before \<open>NOT NULL\<close> is checked.  With a \<open>NULL\<close> date or time
  the conditions of both are \<open>NULL\<close> and nothing is raised.  With a \<open>NULL\<close> doctor only, the
  query of \<open>trg_appt_no_overlap_check\<close> selects no row (\<open>doctor_id = NULL\<close>), and
  \<open>trg_appt_no_past_check\<close>, which reads the date and the time only, still raises on a
  start in the past.  Neither trigger reads the patient.  A \<open>NULL\<close> patient or doctor
  stands as 0 in \<open>NEW\<close>, where it is not read.
\<close>

definition insert_appointment ::
  "database \<Rightarrow> int \<Rightarrow> int option \<Rightarrow> int option \<Rightarrow> int option \<Rightarrow> int option \<Rightarrow> int
     \<Rightarrow> appointment_status option \<Rightarrow> string \<Rightarrow> (db_error + int) \<times> database" where
  "insert_appointment db now p d date t dur st n =
     (if \<not> smallint_ok dur then (Inl numeric_value_out_of_range, db)
      else
        let db1 = db\<lparr>appointments_id_seq := appointments_id_seq db + 1\<rparr> in
        case (date, t) of
          (Some date', Some t') \<Rightarrow>
            (let NEW = \<lparr>appt_id = appointments_id_seq db,
                        patient_id = (case p of None \<Rightarrow> 0 | Some p' \<Rightarrow> p'),
                        doctor_id = (case d of None \<Rightarrow> 0 | Some d' \<Rightarrow> d'),
                        appointment_date = date', appointment_time = t',
                        duration_minutes = dur, status = st, appt_notes = n\<rparr>
             in case (if d = None then Inr NEW
                      else trg_appt_no_overlap_check (appointments db) INSERT NEW) of
                  Inl e \<Rightarrow> (Inl e, db1)
                | Inr NEW1 \<Rightarrow>
                   (case trg_appt_no_past_check now NEW1 of
                      Inl e \<Rightarrow> (Inl e, db1)
                    | Inr NEW2 \<Rightarrow>
                       if p = None \<or> d = None then (Inl not_null_violation, db1)
                       else if violates_unique_on_insert (appointments db) NEW2
                         then (Inl unique_violation, db1)
                       else if \<not> references_ok db NEW2 then (Inl foreign_key_violation, db1)
                       else (Inr (appt_id NEW2),
                             db1\<lparr>appointments := appointments db @ [NEW2]\<rparr>)))
        | _ \<Rightarrow> (Inl not_null_violation, db1))"

section \<open>The models (the model classes listed in server.js)\<close>

text \<open>
  A JavaScript object with the appointment's properties, each present or \<open>undefined\<close>
  (\<open>None\<close>): a request body, the argument of \<open>Appointment.create\<close> and the \<open>updateData\<close>
  of \<open>Appointment.updateById\<close>.  A property that is present is well-typed: an id and a
  duration are integers in the range of PostgreSQL's \<open>INTEGER\<close>, a date is a \<open>YYYY-MM-DD\<close>
  text given by its day number, a time is an \<open>HH:MM\<close> or \<open>HH:MM:SS\<close> text given by its
  second of the day, notes are a string of ASCII characters.
  The status is a string or JSON's \<open>null\<close>, which \<open>Appointment.create\<close> and
  \<open>Appointment.updateById\<close> pass on to the statement as \<open>NULL\<close> (only \<open>undefined\<close> takes a
  default or is skipped).  For the other properties \<open>null\<close> is outside the model, as are
  date and time texts that PostgreSQL cannot convert.
\<close>

datatype js_string = JNull | JString string

record appointment_fields =
  req_patient_id :: "int option"
  req_doctor_id :: "int option"
  req_appointment_date :: "int option"
  req_appointment_time :: "int option"
  req_duration_minutes :: "int option"
  req_status :: "js_string option"
  req_notes :: "string option"

definition no_fields :: appointment_fields where
  "no_fields = \<lparr>req_patient_id = None, req_doctor_id = None, req_appointment_date = None,
     req_appointment_time = None, req_duration_minutes = None, req_status = None,
     req_notes = None\<rparr>"

text \<open>The input conversion of the enum type \<open>appointment_status\<close>.\<close>

definition status_of_string :: "string \<Rightarrow> appointment_status option" where
  "status_of_string s =
     (if s = ''scheduled'' then Some scheduled
      else if s = ''checked_in'' then Some checked_in
      else if s = ''completed'' then Some completed
      else if s = ''cancelled'' then Some cancelled
      else None)"

text \<open>
  The status as a parameter of a statement: \<open>null\<close> is \<open>NULL\<close>, a string goes through the
  input conversion of the enum type.
\<close>

definition status_of_param :: "js_string \<Rightarrow> db_error + appointment_status option" where
  "status_of_param v =
     (case v of
        JNull \<Rightarrow> Inr None
      | JString s \<Rightarrow>
          (case status_of_string s of
             None \<Rightarrow> Inl invalid_text_representation
           | Some st \<Rightarrow> Inr (Some st)))"

text \<open>\<open>findById\<close> of the models: \<open>result.rows[0] || null\<close>.\<close>

definition Patient_findById :: "database \<Rightarrow> int option \<Rightarrow> (int \<times> string) option" where
  "Patient_findById db i =
     (case i of None \<Rightarrow> None | Some i' \<Rightarrow> find (\<lambda>p. fst p = i') (patients db))"

definition Doctor_findById :: "database \<Rightarrow> int option \<Rightarrow> (int \<times> string) option" where
  "Doctor_findById db i =
     (case i of None \<Rightarrow> None | Some i' \<Rightarrow> find (\<lambda>d. fst d = i') (doctors db))"

definition Appointment_findById :: "database \<Rightarrow> int \<Rightarrow> appointment option" where
  "Appointment_findById db i = find (\<lambda>a. appt_id a = i) (appointments db)"

text \<open>
  \<open>Doctor.getAvailableSlots\<close> (lines 400 to 412): the start and the duration of the
  doctor's appointments of the day whose status is not cancelled, by start time.
\<close>

definition getAvailableSlots :: "database \<Rightarrow> int \<Rightarrow> int \<Rightarrow> (int \<times> int) list" where
  "getAvailableSlots db doctor_id' date =
     sort_key fst (map (\<lambda>a. (appointment_time a, duration_minutes a))
       (filter (\<lambda>a. doctor_id a = doctor_id' \<and> appointment_date a = date
                    \<and> status_not_cancelled a) (appointments db)))"

text \<open>
  \<open>Appointment.create\<close> (lines 421 to 436): the destructuring defaults
  \<open>duration_minutes = 30\<close>, \<open>status = 'scheduled'\<close> and \<open>notes = ''\<close> stand in for a property
  that is \<open>undefined\<close>.
\<close>

definition Appointment_create ::
  "database \<Rightarrow> int \<Rightarrow> appointment_fields \<Rightarrow> (db_error + int) \<times> database" where
  "Appointment_create db now args =
     (let duration_minutes' = (case req_duration_minutes args of None \<Rightarrow> 30 | Some v \<Rightarrow> v);
          status' = (case req_status args of None \<Rightarrow> JString ''scheduled'' | Some v \<Rightarrow> v);
          notes' = (case req_notes args of None \<Rightarrow> [] | Some v \<Rightarrow> v)
      in if \<not> smallint_ok duration_minutes' then (Inl numeric_value_out_of_range, db)
         else case status_of_param status' of
           Inl e \<Rightarrow> (Inl e, db)
         | Inr st \<Rightarrow>
             insert_appointment db now (req_patient_id args) (req_doctor_id args)
               (req_appointment_date args) (req_appointment_time args) duration_minutes' st
               notes')"

text \<open>
  \<open>Appointment.updateById\<close> (lines 523 to 566) sets the properties that are not
  \<open>undefined\<close> and returns \<open>rowCount > 0\<close>; with nothing to set it returns \<open>false\<close> without
  a statement.  The status to set is \<open>None\<close> when the column is not set, \<open>Some None\<close> for
  \<open>NULL\<close>.  The \<open>UPDATE\<close> runs, on the row of that id (the primary key), the
  \<open>BEFORE UPDATE\<close> triggers in the order of their names (\<open>trg_appointments_updated_at\<close>,
  which only stamps \<open>updated_at\<close>, \<open>trg_appt_no_overlap_update\<close>,
  \<open>trg_appt_no_past_update\<close>), then the unique index and the foreign keys.
\<close>

definition updated_row ::
  "appointment \<Rightarrow> appointment_fields \<Rightarrow> appointment_status option option \<Rightarrow> appointment" where
  "updated_row old u st =
     old\<lparr>patient_id := (case req_patient_id u of None \<Rightarrow> patient_id old | Some v \<Rightarrow> v),
         doctor_id := (case req_doctor_id u of None \<Rightarrow> doctor_id old | Some v \<Rightarrow> v),
         appointment_date :=
           (case req_appointment_date u of None \<Rightarrow> appointment_date old | Some v \<Rightarrow> v),
         appointment_time :=
           (case req_appointment_time u of None \<Rightarrow> appointment_time old | Some v \<Rightarrow> v),
         duration_minutes :=
           (case req_duration_minutes u of None \<Rightarrow> duration_minutes old | Some v \<Rightarrow> v),
         status := (case st of None \<Rightarrow> status old | Some v \<Rightarrow> v),
         appt_notes := (case req_notes u of None \<Rightarrow> appt_notes old | Some v \<Rightarrow> v)\<rparr>"

definition update_appointment ::
  "database \<Rightarrow> int \<Rightarrow> int \<Rightarrow> appointment_fields \<Rightarrow> appointment_status option option
     \<Rightarrow> (db_error + bool) \<times> database" where
  "update_appointment db now i u st =
     (case find (\<lambda>a. appt_id a = i) (appointments db) of
        None \<Rightarrow> (Inr False, db)
      | Some old \<Rightarrow>
          (case trg_appt_no_overlap_check (appointments db) UPDATE (updated_row old u st) of
             Inl e \<Rightarrow> (Inl e, db)
           | Inr NEW1 \<Rightarrow>
              (case trg_appt_no_past_check now NEW1 of
                 Inl e \<Rightarrow> (Inl e, db)
               | Inr NEW2 \<Rightarrow>
                  if violates_unique_on_update (appointments db) NEW2
                    then (Inl unique_violation, db)
                  else if \<not> references_ok db NEW2 then (Inl foreign_key_violation, db)
                  else (Inr True,
                        db\<lparr>appointments :=
                          map (\<lambda>a. if appt_id a = i then NEW2 else a) (appointments db)\<rparr>))))"

definition Appointment_updateById ::
  "database \<Rightarrow> int \<Rightarrow> int \<Rightarrow> appointment_fields \<Rightarrow> (db_error + bool) \<times> database" where
  "Appointment_updateById db now i updateData =
     (if updateData = no_fields then (Inr False, db)
      else if (case req_duration_minutes updateData of None \<Rightarrow> False | Some v \<Rightarrow> \<not> smallint_ok v)
        then (Inl numeric_value_out_of_range, db)
      else case req_status updateData of
          None \<Rightarrow> update_appointment db now i updateData None
        | Some v \<Rightarrow>
           (case status_of_param v of
              Inl e \<Rightarrow> (Inl e, db)
            | Inr st \<Rightarrow> update_appointment db now i updateData (Some st)))"

section \<open>The routes (routes/index.js)\<close>

subsection \<open>Responses\<close>

record slot =
  time :: string
  available :: bool

datatype response =
    Created int appointment_fields
  | Validation_Failed "string list"
  | Not_Found string
  | Time_Conflict "appointment list"
  | Database_Error nat string
  | Bad_Request string
  | Server_Error
  | Updated
  | Status_Updated int string
  | Slot_List "slot list"

fun http_status :: "response \<Rightarrow> nat" where
  "http_status (Created i a) = 201"
| "http_status (Validation_Failed es) = 400"
| "http_status (Not_Found e) = 404"
| "http_status (Time_Conflict cs) = 409"
| "http_status (Database_Error code e) = code"
| "http_status (Bad_Request e) = 400"
| "http_status Server_Error = 500"
| "http_status Updated = 200"
| "http_status (Status_Updated i s) = 200"
| "http_status (Slot_List ss) = 200"

text \<open>
  \<open>handleDatabaseError\<close> (lines 12 to 83): the status and the \<open>error\<close> tag by SQLSTATE.
  An exception raised by a trigger (P0001) and the conversion errors take the default.
\<close>

fun handleDatabaseError :: "db_error \<Rightarrow> response" where
  "handleDatabaseError unique_violation = Database_Error 409 ''DUPLICATE_ENTRY''"
| "handleDatabaseError foreign_key_violation = Database_Error 409 ''FOREIGN_KEY_CONSTRAINT''"
| "handleDatabaseError not_null_violation = Database_Error 400 ''REQUIRED_FIELD_MISSING''"
| "handleDatabaseError e = Database_Error 500 ''DATABASE_ERROR''"

subsection \<open>validateInput, on the rules of the booking route\<close>

text \<open>
  \<open>validateInput(data, rules)\<close> (lines 86 to 173) walks the rules and returns the object
  \<open>{isValid, errors, sanitizedData}\<close>.  It is given here on the rule set of the booking
  route (lines 827 to 867), one definition per rule.  For each field: a required field
  that is falsy (\<open>undefined\<close>, the number 0) gives \<open>field is required\<close> and ends the
  field's checks; a field that is falsy and not 0 is skipped; then \<open>maxLength\<close> on the
  trimmed text, \<open>pattern\<close>, and \<open>custom\<close> with the rule's \<open>customMessage\<close>.  The patterns of
  the date and the time hold by the typing of \<open>appointment_fields\<close>.  No rule of this set
  sanitizes, so \<open>sanitizedData\<close> is the data.
\<close>

record validation =
  isValid :: bool
  errors :: "string list"
  sanitizedData :: appointment_fields

definition is_space :: "char \<Rightarrow> bool" where
  "is_space c = (c \<in> {CHR '' '', CHR 0x09, CHR 0x0A, CHR 0x0B, CHR 0x0C, CHR 0x0D})"

definition trim :: "string \<Rightarrow> string" where
  "trim s = rev (dropWhile is_space (rev (dropWhile is_space s)))"

text \<open>The rule of \<open>patient_id\<close> and \<open>doctor_id\<close>: required, and a positive integer.\<close>

definition id_rule :: "string \<Rightarrow> string \<Rightarrow> int option \<Rightarrow> string list" where
  "id_rule field customMessage v =
     (case v of
        None \<Rightarrow> [field @ '' is required'']
      | Some n \<Rightarrow>
          if n = 0 then [field @ '' is required'']
          else if 0 < n then [] else [customMessage])"

text \<open>
  The rule of \<open>appointment_date\<close>: required, and \<open>new Date(value) >= today\<close>, \<open>today\<close> being
  the day of the server's clock (taken in UTC).
\<close>

definition date_rule :: "int \<Rightarrow> int option \<Rightarrow> string list" where
  "date_rule today v =
     (case v of
        None \<Rightarrow> [''appointment_date is required'']
      | Some d \<Rightarrow>
          if today \<le> d then [] else [''Appointment date must be today or in the future''])"

definition time_rule :: "int option \<Rightarrow> string list" where
  "time_rule v = (case v of None \<Rightarrow> [''appointment_time is required''] | Some t \<Rightarrow> [])"

text \<open>
  The rule of \<open>duration_minutes\<close>: not required; \<open>custom\<close> wants an integer from 15 to 240
  (0 is not skipped: the skip is \<open>!value && value !== 0\<close>).
\<close>

definition duration_rule :: "int option \<Rightarrow> string list" where
  "duration_rule v =
     (case v of
        None \<Rightarrow> []
      | Some n \<Rightarrow>
          if 15 \<le> n \<and> n \<le> 240 then []
          else [''Duration must be between 15 and 240 minutes''])"

definition notes_rule :: "string option \<Rightarrow> string list" where
  "notes_rule v =
     (case v of
        None \<Rightarrow> []
      | Some n \<Rightarrow>
          if n = [] then []
          else if 500 < length (trim n) then [''notes cannot exceed 500 characters'']
          else [])"

definition validateInput :: "int \<Rightarrow> appointment_fields \<Rightarrow> validation" where
  "validateInput today data =
     (let errors' =
            id_rule ''patient_id'' ''Patient ID must be a positive integer'' (req_patient_id data)
          @ id_rule ''doctor_id'' ''Doctor ID must be a positive integer'' (req_doctor_id data)
          @ date_rule today (req_appointment_date data)
          @ time_rule (req_appointment_time data)
          @ duration_rule (req_duration_minutes data)
          @ notes_rule (req_notes data)
      in \<lparr>isValid = (length errors' = 0), errors = errors', sanitizedData = data\<rparr>)"

text \<open>
  The booking route tests \<open>validationErrors.length > 0\<close> on the object that
  \<open>validateInput\<close> returned.  That object has the properties \<open>isValid\<close>, \<open>errors\<close> and
  \<open>sanitizedData\<close> only, so the property read gives \<open>undefined\<close>, and \<open>undefined > 0\<close>
  compares \<open>NaN\<close> with 0, which is false.
\<close>

datatype js_value = JUndefined | JNumber int

definition validation_length :: "validation \<Rightarrow> js_value" where
  "validation_length v = JUndefined"

fun js_greater_than :: "js_value \<Rightarrow> int \<Rightarrow> bool" where
  "js_greater_than JUndefined n = False"
| "js_greater_than (JNumber m) n = (n < m)"

subsection \<open>POST /appointments (lines 806 to 974)\<close>

text \<open>
  The conflict check of the booking route: the stored function, and the model's
  \<open>checkOverlap\<close> when the call fails.  With date or time \<open>NULL\<close> the conditions of both
  queries are \<open>NULL\<close> and no row is counted.  The result is the 409 response when there
  is a conflict; it lists the conflicting rows when the stored function answered.
\<close>

definition conflicting_rows :: "database \<Rightarrow> int \<Rightarrow> int \<Rightarrow> int \<Rightarrow> int \<Rightarrow> appointment list" where
  "conflicting_rows db d date t dur =
     filter (\<lambda>a. patient_id a \<in> fst ` set (patients db)
                \<and> doctor_id a = d \<and> appointment_date a = date \<and> status_not_cancelled a
                \<and> appointment_time a < time_pl_interval t dur
                \<and> row_end_time a > t) (appointments db)"

definition booking_conflict ::
  "database \<Rightarrow> int \<Rightarrow> int option \<Rightarrow> int option \<Rightarrow> int \<Rightarrow> response option" where
  "booking_conflict db d date t dur =
     (case (date, t) of
        (Some date', Some t') \<Rightarrow>
          if conflict_function_installed db
          then (if check_appointment_conflict (appointments db) d date' t' dur None
                then Some (Time_Conflict (conflicting_rows db d date' t' dur)) else None)
          else (if checkOverlap db d date' t' dur None then Some (Time_Conflict []) else None)
      | _ \<Rightarrow> None)"

definition post_appointments ::
  "database \<Rightarrow> int \<Rightarrow> appointment_fields \<Rightarrow> response \<times> database" where
  "post_appointments db now body =
     (let duration_minutes' = (case req_duration_minutes body of None \<Rightarrow> 30 | Some v \<Rightarrow> v);
          notes' = (case req_notes body of None \<Rightarrow> [] | Some v \<Rightarrow> v);
          validationErrors = validateInput (now div 86400)
            (body\<lparr>req_duration_minutes := Some duration_minutes', req_notes := Some notes'\<rparr>)
      in if js_greater_than (validation_length validationErrors) 0
         then (Validation_Failed (errors validationErrors), db)
         else case Patient_findById db (req_patient_id body) of
           None \<Rightarrow> (Not_Found ''PATIENT_NOT_FOUND'', db)
         | Some patient \<Rightarrow>
            (case Doctor_findById db (req_doctor_id body) of
               None \<Rightarrow> (Not_Found ''DOCTOR_NOT_FOUND'', db)
             | Some doctor \<Rightarrow>
                (case booking_conflict db (fst doctor) (req_appointment_date body)
                        (req_appointment_time body) duration_minutes' of
                   Some conflict \<Rightarrow> (conflict, db)
                 | None \<Rightarrow>
                    (let appointmentData =
                            \<lparr>req_patient_id = req_patient_id body,
                             req_doctor_id = req_doctor_id body,
                             req_appointment_date = req_appointment_date body,
                             req_appointment_time = req_appointment_time body,
                             req_duration_minutes = Some duration_minutes',
                             req_status = Some (JString ''scheduled''),
                             req_notes = Some (trim notes')\<rparr>
                     in case Appointment_create db now appointmentData of
                          (Inl err, db') \<Rightarrow> (handleDatabaseError err, db')
                        | (Inr appointmentId, db') \<Rightarrow>
                            (Created appointmentId appointmentData, db')))))"

subsection \<open>PUT /appointments/:id (lines 1060 to 1110)\<close>

text \<open>
  The route runs \<open>checkOverlap\<close>, with the appointment's own id excluded, only when
  \<open>doctor_id && appointment_date && appointment_time && duration_minutes\<close> is truthy: all
  four present, the numbers not 0 (a date or time text that is present is not empty).
  Every error of the statement is answered by 500.
\<close>

definition truthy :: "int option \<Rightarrow> bool" where
  "truthy v = (case v of None \<Rightarrow> False | Some n \<Rightarrow> n \<noteq> 0)"

definition put_appointments ::
  "database \<Rightarrow> int \<Rightarrow> int \<Rightarrow> appointment_fields \<Rightarrow> response \<times> database" where
  "put_appointments db now i body =
     (let hasOverlap =
            (case (req_doctor_id body, req_appointment_date body, req_appointment_time body,
                   req_duration_minutes body) of
               (Some d, Some date, Some t, Some dur) \<Rightarrow>
                 truthy (Some d) \<and> truthy (Some dur) \<and> checkOverlap db d date t dur (Some i)
             | _ \<Rightarrow> False)
      in if hasOverlap
         then (Bad_Request ''This time slot conflicts with an existing appointment for this doctor'', db)
         else case Appointment_updateById db now i body of
           (Inl err, db') \<Rightarrow> (Server_Error, db')
         | (Inr updated, db') \<Rightarrow>
             if \<not> updated then (Not_Found ''Appointment not found'', db') else (Updated, db'))"

subsection \<open>PATCH /appointments/:id/status (lines 1113 to 1180)\<close>

text \<open>
  The requested status is a string or absent (\<open>None\<close>); the route answers a \<open>null\<close> like an
  absent one, by \<open>!status\<close>.
\<close>

definition validStatuses :: "string list" where
  "validStatuses = [''scheduled'', ''checked_in'', ''completed'', ''cancelled'']"

definition patch_appointment_status ::
  "database \<Rightarrow> int \<Rightarrow> int \<Rightarrow> string option \<Rightarrow> response \<times> database" where
  "patch_appointment_status db now appointmentId status' =
     (if appointmentId \<le> 0 then (Bad_Request ''INVALID_ID'', db)
      else
        (case status' of
           None \<Rightarrow> (Bad_Request ''INVALID_STATUS'', db)
         | Some s \<Rightarrow>
            (if s = [] \<or> s \<notin> set validStatuses then (Bad_Request ''INVALID_STATUS'', db)
             else
               (case Appointment_findById db appointmentId of
                  None \<Rightarrow> (Not_Found ''APPOINTMENT_NOT_FOUND'', db)
                | Some existingAppointment \<Rightarrow>
                   (if status existingAppointment = Some completed \<and> s = ''cancelled''
                    then (Bad_Request ''INVALID_STATUS_TRANSITION'', db)
                    else
                      (case Appointment_updateById db now appointmentId
                              (no_fields\<lparr>req_status := Some (JString s)\<rparr>) of
                         (Inl err, db') \<Rightarrow> (handleDatabaseError err, db')
                       | (Inr updated, db') \<Rightarrow>
                           (if \<not> updated then (Not_Found ''APPOINTMENT_NOT_FOUND'', db')
                            else (Status_Updated appointmentId s, db'))))))))"

subsection \<open>GET /doctors/:id/available-slots/:date (lines 549 to 605)\<close>

text \<open>
  \<open>Number.prototype.toString\<close> on a natural number, and \<open>padStart\<close>.
\<close>

function toString :: "nat \<Rightarrow> string" where
  "toString n =
     (if n < 10 then [''0123456789'' ! n]
      else toString (n div 10) @ [''0123456789'' ! (n mod 10)])"
  by pat_completeness auto
termination
  by (relation "measure (\<lambda>n. n)") auto

definition padStart :: "nat \<Rightarrow> char \<Rightarrow> string \<Rightarrow> string" where
  "padStart targetLength c s = replicate (targetLength - length s) c @ s"

text \<open>
  Whether a slot is booked.  The route works on JavaScript dates of 1 January 1970:
  the slot starts at \<open>hour:minute\<close> and ends 30 minutes later, the appointment ends
  \<open>duration_minutes\<close> after its start (\<open>setMinutes\<close> carries into the next day, it does not
  wrap).  Instants are seconds from the midnight of that day.
\<close>

definition isBooked :: "(int \<times> int) list \<Rightarrow> nat \<Rightarrow> nat \<Rightarrow> bool" where
  "isBooked existingAppointments hour minute =
     (\<exists>apt \<in> set existingAppointments.
        (let appointmentTime = fst apt;
             appointmentEndTime = fst apt + 60 * snd apt;
             slotTime = int hour * 3600 + int minute * 60;
             slotEndTime = slotTime + 30 * 60
         in \<not> (slotEndTime \<le> appointmentTime \<or> slotTime \<ge> appointmentEndTime)))"

definition timeStr :: "nat \<Rightarrow> nat \<Rightarrow> string" where
  "timeStr hour minute =
     padStart 2 (CHR ''0'') (toString hour) @ '':'' @ padStart 2 (CHR ''0'') (toString minute)
       @ '':00''"

text \<open>The inner loop, \<open>for (minute = 0; minute < 60; minute += 30)\<close>, and the outer one.\<close>

function minute_loop :: "(int \<times> int) list \<Rightarrow> nat \<Rightarrow> nat \<Rightarrow> slot list \<Rightarrow> slot list" where
  "minute_loop existingAppointments hour minute slots =
     (if minute < 60
      then minute_loop existingAppointments hour (minute + 30)
             (slots @ [\<lparr>time = timeStr hour minute,
                         available = (\<not> isBooked existingAppointments hour minute)\<rparr>])
      else slots)"
  by pat_completeness auto
termination
  by (relation "measure (\<lambda>(e, h, m, s). 60 - m)") auto

function hour_loop :: "(int \<times> int) list \<Rightarrow> nat \<Rightarrow> nat \<Rightarrow> slot list \<Rightarrow> slot list" where
  "hour_loop existingAppointments endHour hour slots =
     (if hour < endHour
      then hour_loop existingAppointments endHour (hour + 1)
             (minute_loop existingAppointments hour 0 slots)
      else slots)"
  by pat_completeness auto
termination
  by (relation "measure (\<lambda>(e, n, h, s). n - h)") auto

definition get_available_slots :: "database \<Rightarrow> int \<Rightarrow> int \<Rightarrow> response" where
  "get_available_slots db i date =
     (case Doctor_findById db (Some i) of
        None \<Rightarrow> Not_Found ''Doctor not found''
      | Some doctor \<Rightarrow>
          (let existingAppointments = getAvailableSlots db i date;
               startHour = 9;
               endHour = 17
           in Slot_List (hour_loop existingAppointments endHour startHour [])))"

section \<open>Notions of the specification, and sample data\<close>

text \<open>
  The overlap of half-open intervals as the specification states it:
  \<open>a.start < b.end \<and> b.start < a.end\<close>, on intervals \<open>[start, start + duration)\<close> in
  seconds of the day, ends not reduced.
\<close>

definition overlaps :: "int \<times> int \<Rightarrow> int \<times> int \<Rightarrow> bool" where
  "overlaps a b = (fst a < fst b + 60 * snd b \<and> fst b < fst a + 60 * snd a)"

definition interval_of :: "appointment \<Rightarrow> int \<times> int" where
  "interval_of a = (appointment_time a, duration_minutes a)"

text \<open>
  A time of day (\<open>00:00:00\<close> to \<open>23:59:59\<close>, what the time pattern of the routes
  describes), a duration within the bounds of the duration rule, and an appointment
  whose interval ends before midnight, where PostgreSQL's end time is the end of the
  interval.
\<close>

definition valid_time :: "int \<Rightarrow> bool" where
  "valid_time t = (0 \<le> t \<and> t < 86400)"

definition valid_duration :: "int \<Rightarrow> bool" where
  "valid_duration d = (15 \<le> d \<and> d \<le> 240)"

definition ends_before_midnight :: "appointment \<Rightarrow> bool" where
  "ends_before_midnight a =
     (0 \<le> appointment_time a \<and> 0 \<le> duration_minutes a
      \<and> appointment_time a + 60 * duration_minutes a < 86400)"

text \<open>
  An appointment is back to back with the candidate \<open>(t, d)\<close> when its interval ends
  exactly at \<open>t\<close> or starts exactly at the candidate's end.
\<close>

definition back_to_back :: "appointment \<Rightarrow> int \<Rightarrow> int \<Rightarrow> bool" where
  "back_to_back a t d =
     (appointment_time a + 60 * duration_minutes a = t \<or> appointment_time a = t + 60 * d)"

text \<open>
  A non-cancelled appointment, in the specification's words: its status is not
  \<open>cancelled\<close>.  An appointment whose status is \<open>NULL\<close> is not cancelled (the SQL condition
  \<open>status != 'cancelled'\<close>, above, does not select it).
\<close>

definition non_cancelled :: "appointment \<Rightarrow> bool" where
  "non_cancelled a = (status a \<noteq> Some cancelled)"

text \<open>
  The central invariant: the table holds no two non-cancelled appointments of one
  doctor and date with overlapping intervals.  Rows are told apart by their primary
  key.
\<close>

definition no_overlap_invariant :: "appointment list \<Rightarrow> bool" where
  "no_overlap_invariant rows =
     (\<not> (\<exists>a \<in> set rows. \<exists>b \<in> set rows.
        appt_id a \<noteq> appt_id b \<and> doctor_id a = doctor_id b
        \<and> appointment_date a = appointment_date b
        \<and> non_cancelled a \<and> non_cancelled b
        \<and> overlaps (interval_of a) (interval_of b)))"

text \<open>
  A start time is free for a booking of \<open>dur\<close> minutes when no row of the doctor and
  date starts at that time (the unique constraint) and none whose status is not
  cancelled overlaps it in the trigger's sense.
\<close>

definition slot_free :: "appointment list \<Rightarrow> int \<Rightarrow> int \<Rightarrow> int \<Rightarrow> int \<Rightarrow> bool" where
  "slot_free rows doc date t dur =
     (\<forall>a \<in> set rows. doctor_id a = doc \<and> appointment_date a = date \<longrightarrow>
        appointment_time a \<noteq> t
        \<and> (status_not_cancelled a \<longrightarrow>
             \<not> (t < row_end_time a \<and> appointment_time a < time_pl_interval t dur)))"

text \<open>
  The fixed grid of the slot generator: the 16 labels from 09:00 to 16:30; slot \<open>k\<close>
  starts \<open>32400 + 1800 * k\<close> seconds after midnight and lasts 30 minutes.
\<close>

definition grid_labels :: "string list" where
  "grid_labels =
     [''09:00:00'', ''09:30:00'', ''10:00:00'', ''10:30:00'', ''11:00:00'', ''11:30:00'',
      ''12:00:00'', ''12:30:00'', ''13:00:00'', ''13:30:00'', ''14:00:00'', ''14:30:00'',
      ''15:00:00'', ''15:30:00'', ''16:00:00'', ''16:30:00'']"

definition grid_slot :: "nat \<Rightarrow> int \<times> int" where
  "grid_slot k = (32400 + 1800 * int k, 30)"

text \<open>
  The database accepts the new version of a row in an \<open>UPDATE\<close>: both triggers let it
  pass, and it violates neither the unique constraint nor a foreign key.
\<close>

definition accepts_update :: "database \<Rightarrow> int \<Rightarrow> appointment \<Rightarrow> bool" where
  "accepts_update db now NEW =
     (trg_appt_no_overlap_check (appointments db) UPDATE NEW = Inr NEW
      \<and> trg_appt_no_past_check now NEW = Inr NEW
      \<and> \<not> violates_unique_on_update (appointments db) NEW
      \<and> references_ok db NEW)"

text \<open>
  Sample data: the patients and doctors of the schema's seed, an appointment row with
  empty notes, and a booking request.  Day 20500 is a day after \<open>now = 20499 * 86400\<close>;
  32400 is 09:00, 33300 is 09:15, 34200 is 09:30.
\<close>

definition clinic :: "appointment list \<Rightarrow> database" where
  "clinic rows =
     \<lparr>patients = [(1, ''John Doe''), (2, ''Jane Smith''), (3, ''Mike Johnson'')],
      doctors = [(1, ''Dr. Alice Heart''), (2, ''Dr. Bob Brain''), (3, ''Dr. Chris Bone''),
                 (4, ''Dr. Daisy Kids'')],
      appointments = rows,
      appointments_id_seq = 1 + int (length rows),
      conflict_function_installed = True\<rparr>"

definition appt :: "int \<Rightarrow> int \<Rightarrow> int \<Rightarrow> int \<Rightarrow> int \<Rightarrow> int \<Rightarrow> appointment_status \<Rightarrow> appointment" where
  "appt i p d date t dur st =
     \<lparr>appt_id = i, patient_id = p, doctor_id = d, appointment_date = date,
      appointment_time = t, duration_minutes = dur, status = Some st, appt_notes = []\<rparr>"

definition booking :: "int \<Rightarrow> int \<Rightarrow> int \<Rightarrow> int \<Rightarrow> int option \<Rightarrow> appointment_fields" where
  "booking p d date t dur =
     \<lparr>req_patient_id = Some p, req_doctor_id = Some d, req_appointment_date = Some date,
      req_appointment_time = Some t, req_duration_minutes = dur, req_status = None,
      req_notes = None\<rparr>"

section \<open>Conflict detection\<close>

lemma time_pl_interval_same_day:
  "0 \<le> t + 60 * m \<Longrightarrow> t + 60 * m < 86400 \<Longrightarrow> time_pl_interval t m = t + 60 * m"
  by (simp add: time_pl_interval_def)

lemma row_end_time_same_day:
  "ends_before_midnight a \<Longrightarrow> row_end_time a = appointment_time a + 60 * duration_minutes a"
  by (simp add: ends_before_midnight_def row_end_time_def time_pl_interval_same_day)

text \<open>
  What the predicate shared by \<open>check_appointment_conflict\<close> and \<open>checkOverlap\<close> decides
  for one row, when the row and the candidate end before midnight: the intervals
  overlap and the row does not lie strictly inside the candidate.
\<close>

lemma conflict_predicate_same_day:
  assumes "ends_before_midnight a" and "0 \<le> t" and "0 < d" and "t + 60 * d < 86400"
  shows "((appointment_time a \<le> t \<and> row_end_time a > t)
          \<or> (appointment_time a < time_pl_interval t d
              \<and> row_end_time a \<ge> time_pl_interval t d))
         \<longleftrightarrow> (overlaps (interval_of a) (t, d)
              \<and> \<not> (t < appointment_time a
                     \<and> appointment_time a + 60 * duration_minutes a < t + 60 * d))"
proof -
  have e: "row_end_time a = appointment_time a + 60 * duration_minutes a"
    using assms(1) by (rule row_end_time_same_day)
  have p: "time_pl_interval t d = t + 60 * d"
    using assms(2-4) by (simp add: time_pl_interval_same_day)
  show ?thesis
    using assms(3) by (auto simp: e p overlaps_def interval_of_def)
qed

lemma check_appointment_conflict_same_day:
  assumes "\<forall>a \<in> set rows. ends_before_midnight a"
    and "0 \<le> t" and "0 < d" and "t + 60 * d < 86400"
  shows "check_appointment_conflict rows doc date t d ex
         \<longleftrightarrow> (\<exists>a \<in> set rows. doctor_id a = doc \<and> appointment_date a = date
               \<and> status_not_cancelled a
               \<and> (case ex of None \<Rightarrow> True | Some x \<Rightarrow> appt_id a \<noteq> x)
               \<and> overlaps (interval_of a) (t, d)
               \<and> \<not> (t < appointment_time a
                      \<and> appointment_time a + 60 * duration_minutes a < t + 60 * d))"
proof -
  have "check_appointment_conflict rows doc date t d ex
        \<longleftrightarrow> (\<exists>a \<in> set rows. doctor_id a = doc \<and> appointment_date a = date
               \<and> status_not_cancelled a
               \<and> (case ex of None \<Rightarrow> True | Some x \<Rightarrow> appt_id a \<noteq> x)
               \<and> ((appointment_time a \<le> t \<and> row_end_time a > t)
                  \<or> (appointment_time a < time_pl_interval t d
                      \<and> row_end_time a \<ge> time_pl_interval t d)))"
    by (auto simp: check_appointment_conflict_def Let_def filter_empty_conv)
  also have "\<dots> \<longleftrightarrow> (\<exists>a \<in> set rows. doctor_id a = doc \<and> appointment_date a = date
               \<and> status_not_cancelled a
               \<and> (case ex of None \<Rightarrow> True | Some x \<Rightarrow> appt_id a \<noteq> x)
               \<and> overlaps (interval_of a) (t, d)
               \<and> \<not> (t < appointment_time a
                      \<and> appointment_time a + 60 * duration_minutes a < t + 60 * d))"
    using assms conflict_predicate_same_day [OF _ assms(2-4)] by (intro bex_cong refl) blast
  finally show ?thesis .
qed

text \<open>The model's query decides what the stored function decides.\<close>

lemma checkOverlap_eq_check_appointment_conflict:
  "checkOverlap db doc date t d ex = check_appointment_conflict (appointments db) doc date t d ex"
  by (simp add: checkOverlap_def check_appointment_conflict_def Let_def conj_comms)

text \<open>
  Claim C1.  The conflict check is to return true exactly when some appointment of the
  schedule overlaps the candidate's half-open interval.  At the candidate 09:00 for 60
  minutes, against a schedule holding one scheduled appointment at 09:15 for 15
  minutes, the intervals overlap, and both \<open>check_appointment_conflict\<close> and
  \<open>checkOverlap\<close> return false: the appointment starts after the candidate's start and
  ends before the candidate's end, and neither disjunct of their predicate covers that.
\<close>

theorem conflict_check_misses_contained_appointment:
  "overlaps (interval_of (appt 1 1 1 20500 33300 15 scheduled)) (32400, 60)
   \<and> check_appointment_conflict [appt 1 1 1 20500 33300 15 scheduled] 1 20500 32400 60 None
       = False
   \<and> checkOverlap (clinic [appt 1 1 1 20500 33300 15 scheduled]) 1 20500 32400 60 None
       = False"
  by (simp add: overlaps_def interval_of_def check_appointment_conflict_def checkOverlap_def
      clinic_def appt_def status_not_cancelled_def row_end_time_def time_pl_interval_def)

section \<open>Cancelled appointments in the conflict decisions\<close>

lemma check_appointment_conflict_ignores_cancelled:
  "status c = Some cancelled \<Longrightarrow>
   check_appointment_conflict (xs @ c # ys) doc date t d ex
     = check_appointment_conflict (xs @ ys) doc date t d ex"
  by (simp add: check_appointment_conflict_def status_not_cancelled_def)

lemma checkOverlap_ignores_cancelled:
  "status c = Some cancelled \<Longrightarrow>
   checkOverlap (db\<lparr>appointments := xs @ c # ys\<rparr>) doc date t d ex
     = checkOverlap (db\<lparr>appointments := xs @ ys\<rparr>) doc date t d ex"
  by (simp add: checkOverlap_def status_not_cancelled_def)

text \<open>
  Claim C7.  Every conflict decision is to be the same with and without a cancelled
  appointment.  \<open>check_appointment_conflict\<close> and \<open>checkOverlap\<close> filter on the status
  (the two lemmas above); \<open>check_doctor_overlap\<close> does not: with the empty schedule it
  returns 0 for the candidate 09:00 for 30 minutes, and with one cancelled appointment
  at 09:00 for 30 minutes added it returns 1.
\<close>

theorem check_doctor_overlap_counts_cancelled:
  "status (appt 1 1 1 20500 32400 30 cancelled) = Some cancelled
   \<and> check_doctor_overlap [] 1 20500 32400 30 None = 0
   \<and> check_doctor_overlap [appt 1 1 1 20500 32400 30 cancelled] 1 20500 32400 30 None = 1"
  by (simp add: check_doctor_overlap_def appt_def row_end_time_def time_pl_interval_def)

section \<open>Back-to-back bookings\<close>

lemma time_pl_interval_next_day:
  "86400 \<le> t + 60 * m \<Longrightarrow> t + 60 * m < 172800 \<Longrightarrow> time_pl_interval t m = t + 60 * m - 86400"
  unfolding time_pl_interval_def
  by (rule int_mod_pos_eq [where q = 1]) simp_all

text \<open>
  The predicate of the two conflict checks is false of a row that is back to back with
  the candidate, for times of day and for durations within the bounds of the duration
  rule, also when the candidate's end wraps past midnight.
\<close>

lemma back_to_back_predicate:
  assumes "valid_time (appointment_time a)" and "valid_duration (duration_minutes a)"
    and "valid_time t" and "valid_duration d" and "back_to_back a t d"
  shows "\<not> ((appointment_time a \<le> t \<and> row_end_time a > t)
            \<or> (appointment_time a < time_pl_interval t d
                \<and> row_end_time a \<ge> time_pl_interval t d))"
proof -
  from assms(5) consider (before) "appointment_time a + 60 * duration_minutes a = t"
    | (after) "appointment_time a = t + 60 * d"
    by (auto simp: back_to_back_def)
  then show ?thesis
  proof cases
    case before
    have e: "row_end_time a = t"
      using before assms(1-3)
      by (simp add: row_end_time_def valid_time_def valid_duration_def time_pl_interval_same_day)
    show ?thesis
    proof (cases "t + 60 * d < 86400")
      case True
      then have "time_pl_interval t d = t + 60 * d"
        using assms(3,4) by (simp add: valid_time_def valid_duration_def time_pl_interval_same_day)
      then show ?thesis using e assms(4) by (simp add: valid_duration_def)
    next
      case False
      then have "time_pl_interval t d = t + 60 * d - 86400"
        using assms(3,4) by (simp add: valid_time_def valid_duration_def time_pl_interval_next_day)
      then show ?thesis
        using e before assms(1-4) by (simp add: valid_time_def valid_duration_def)
    qed
  next
    case after
    have p: "time_pl_interval t d = appointment_time a"
      using after assms(1,3,4)
      by (simp add: valid_time_def valid_duration_def time_pl_interval_same_day)
    show ?thesis using p after assms(4) by (simp add: valid_duration_def)
  qed
qed

lemma back_to_back_not_counted:
  assumes "valid_time (appointment_time a)" and "valid_duration (duration_minutes a)"
    and "valid_time t" and "valid_duration d" and "back_to_back a t d"
  shows "check_appointment_conflict (xs @ a # ys) doc date t d ex
         = check_appointment_conflict (xs @ ys) doc date t d ex"
  using back_to_back_predicate [OF assms]
  by (auto simp: check_appointment_conflict_def Let_def)

section \<open>The booking route\<close>

lemma find_fst_Some:
  "x \<in> fst ` set xs \<Longrightarrow> \<exists>y. find (\<lambda>p. fst p = x) xs = Some (x, y)"
  by (induction xs) auto

lemma conflict_predicate_implies_trigger:
  assumes "t < time_pl_interval t dur"
    and "(appointment_time a \<le> t \<and> row_end_time a > t)
          \<or> (appointment_time a < time_pl_interval t dur
              \<and> row_end_time a \<ge> time_pl_interval t dur)"
  shows "t < row_end_time a \<and> appointment_time a < time_pl_interval t dur"
  using assms by auto

lemma slot_free_no_conflict:
  assumes "slot_free rows doc date t dur" and "t < time_pl_interval t dur"
  shows "\<not> check_appointment_conflict rows doc date t dur ex"
  using assms conflict_predicate_implies_trigger [OF assms(2)]
  unfolding slot_free_def check_appointment_conflict_def Let_def
  by (auto simp: filter_empty_conv)

lemma slot_free_booking_conflict:
  assumes "slot_free (appointments db) doc date t dur" and "t < time_pl_interval t dur"
  shows "booking_conflict db doc (Some date) (Some t) dur = None"
  using slot_free_no_conflict [OF assms]
  by (simp add: booking_conflict_def checkOverlap_eq_check_appointment_conflict)

lemma slot_free_trigger:
  assumes "slot_free rows doc date t dur" and "doctor_id NEW = doc" and "appointment_date NEW = date"
    and "appointment_time NEW = t" and "duration_minutes NEW = dur"
  shows "trg_appt_no_overlap_check rows op NEW = Inr NEW"
  using assms unfolding slot_free_def trg_appt_no_overlap_check_def Let_def
  by (auto simp: filter_empty_conv)

lemma insert_appointment_free:
  assumes "slot_free (appointments db) doc date t dur"
    and "smallint_ok dur" and "now \<le> date * 86400 + t"
    and "\<forall>a \<in> set (appointments db). appt_id a \<noteq> appointments_id_seq db"
    and "p \<in> fst ` set (patients db)" and "doc \<in> fst ` set (doctors db)"
  shows "insert_appointment db now (Some p) (Some doc) (Some date) (Some t) dur st n
         = (Inr (appointments_id_seq db),
            db\<lparr>appointments_id_seq := appointments_id_seq db + 1,
               appointments := appointments db @
                 [\<lparr>appt_id = appointments_id_seq db, patient_id = p, doctor_id = doc,
                   appointment_date = date, appointment_time = t, duration_minutes = dur,
                   status = st, appt_notes = n\<rparr>]\<rparr>)"
proof -
  let ?NEW = "\<lparr>appt_id = appointments_id_seq db, patient_id = p, doctor_id = doc,
                   appointment_date = date, appointment_time = t, duration_minutes = dur,
                   status = st, appt_notes = n\<rparr>"
  have trg: "trg_appt_no_overlap_check (appointments db) INSERT ?NEW = Inr ?NEW"
    using assms(1) by (rule slot_free_trigger) simp_all
  have past: "trg_appt_no_past_check now ?NEW = Inr ?NEW"
    using assms(3) by (simp add: trg_appt_no_past_check_def)
  have uniq: "\<not> violates_unique_on_insert (appointments db) ?NEW"
    using assms(1,4) by (auto simp: violates_unique_on_insert_def same_doctor_datetime_def slot_free_def)
  have refs: "references_ok db ?NEW"
    using assms(5,6) by (simp add: references_ok_def)
  show ?thesis
    using assms(2) by (simp add: insert_appointment_def trg past uniq refs)
qed

text \<open>
  A booking whose patient and doctor exist, whose start is not in the past and whose
  slot is free is created, with the duration of the request or the default 30.
\<close>

lemma post_appointments_free:
  assumes "slot_free (appointments db) doc date t (case dur of None \<Rightarrow> 30 | Some v \<Rightarrow> v)"
    and "t < time_pl_interval t (case dur of None \<Rightarrow> 30 | Some v \<Rightarrow> v)"
    and "smallint_ok (case dur of None \<Rightarrow> 30 | Some v \<Rightarrow> v)" and "now \<le> date * 86400 + t"
    and "\<forall>a \<in> set (appointments db). appt_id a \<noteq> appointments_id_seq db"
    and "p \<in> fst ` set (patients db)" and "doc \<in> fst ` set (doctors db)"
  shows "post_appointments db now (booking p doc date t dur)
         = (Created (appointments_id_seq db)
              \<lparr>req_patient_id = Some p, req_doctor_id = Some doc,
               req_appointment_date = Some date, req_appointment_time = Some t,
               req_duration_minutes = Some (case dur of None \<Rightarrow> 30 | Some v \<Rightarrow> v),
               req_status = Some (JString ''scheduled''), req_notes = Some []\<rparr>,
            db\<lparr>appointments_id_seq := appointments_id_seq db + 1,
               appointments := appointments db @
                 [appt (appointments_id_seq db) p doc date t
                    (case dur of None \<Rightarrow> 30 | Some v \<Rightarrow> v) scheduled]\<rparr>)"
proof -
  obtain pn where pf: "Patient_findById db (Some p) = Some (p, pn)"
    using find_fst_Some [OF assms(6)] by (auto simp: Patient_findById_def)
  obtain dn where df: "Doctor_findById db (Some doc) = Some (doc, dn)"
    using find_fst_Some [OF assms(7)] by (auto simp: Doctor_findById_def)
  have bc: "booking_conflict db doc (Some date) (Some t) (case dur of None \<Rightarrow> 30 | Some v \<Rightarrow> v) = None"
    using assms(1,2) by (rule slot_free_booking_conflict)
  have ins: "insert_appointment db now (Some p) (Some doc) (Some date) (Some t)
               (case dur of None \<Rightarrow> 30 | Some v \<Rightarrow> v) (Some scheduled) []
         = (Inr (appointments_id_seq db),
            db\<lparr>appointments_id_seq := appointments_id_seq db + 1,
               appointments := appointments db @
                 [appt (appointments_id_seq db) p doc date t
                    (case dur of None \<Rightarrow> 30 | Some v \<Rightarrow> v) scheduled]\<rparr>)"
    unfolding appt_def using assms(1,3,4,5,6,7) by (rule insert_appointment_free)
  show ?thesis
    using assms(3)
    by (simp add: post_appointments_def booking_def validation_length_def pf df bc
        Appointment_create_def status_of_param_def status_of_string_def trim_def ins Let_def)
qed

lemma booking_conflict_is_conflict:
  "booking_conflict db d date t dur = Some r \<Longrightarrow> \<exists>cs. r = Time_Conflict cs"
  by (auto simp: booking_conflict_def split: option.splits if_splits)

lemma handleDatabaseError_not_Created: "handleDatabaseError e \<noteq> Created i a"
  by (cases e) auto

lemma insert_appointment_Inr:
  assumes "insert_appointment db now p d date t dur st n = (Inr i, db')"
  shows "\<exists>a \<in> set (appointments db'). appt_id a = i \<and> duration_minutes a = dur"
  using assms
  by (auto simp: insert_appointment_def Let_def trg_appt_no_overlap_check_def
      trg_appt_no_past_check_def split: option.splits if_splits sum.splits)

lemma Appointment_create_Inr:
  assumes "Appointment_create db now args = (Inr i, db')"
  shows "\<exists>a \<in> set (appointments db'). appt_id a = i
           \<and> duration_minutes a = (case req_duration_minutes args of None \<Rightarrow> 30 | Some v \<Rightarrow> v)"
  using assms insert_appointment_Inr
  by (fastforce simp: Appointment_create_def Let_def split: option.splits if_splits sum.splits)

text \<open>A created booking is a row of the table, with the duration of the request or 30.\<close>

lemma post_appointments_Created_row:
  assumes "post_appointments db now body = (Created i data, db')"
  shows "req_duration_minutes data = Some (case req_duration_minutes body of None \<Rightarrow> 30 | Some v \<Rightarrow> v)
         \<and> (\<exists>a \<in> set (appointments db'). appt_id a = i
               \<and> duration_minutes a = (case req_duration_minutes body of None \<Rightarrow> 30 | Some v \<Rightarrow> v))"
proof -
  let ?dur = "case req_duration_minutes body of None \<Rightarrow> 30 | Some v \<Rightarrow> v"
  let ?data = "\<lparr>req_patient_id = req_patient_id body, req_doctor_id = req_doctor_id body,
                req_appointment_date = req_appointment_date body,
                req_appointment_time = req_appointment_time body,
                req_duration_minutes = Some ?dur, req_status = Some (JString ''scheduled''),
                req_notes = Some (trim (case req_notes body of None \<Rightarrow> [] | Some v \<Rightarrow> v))\<rparr>"
  from assms have "data = ?data \<and> Appointment_create db now ?data = (Inr i, db')"
    using booking_conflict_is_conflict handleDatabaseError_not_Created
    by (fastforce simp: post_appointments_def Let_def validation_length_def
        split: option.splits sum.splits prod.splits)
  then show ?thesis
    using Appointment_create_Inr [of db now ?data i db'] by auto
qed

text \<open>Two bookings of 30 minutes at 09:00 and 09:30 on a day that is free for the doctor.\<close>

lemma post_appointments_0900_then_0930:
  assumes "p1 \<in> fst ` set (patients db)" and "p2 \<in> fst ` set (patients db)"
    and "doc \<in> fst ` set (doctors db)"
    and free: "\<forall>a \<in> set (appointments db). \<not> (doctor_id a = doc \<and> appointment_date a = date)"
    and ids: "\<forall>a \<in> set (appointments db). appt_id a < appointments_id_seq db"
    and "now \<le> date * 86400 + 32400" and "now' \<le> date * 86400 + 34200"
  shows "(let b1 = post_appointments db now (booking p1 doc date 32400 (Some 30));
              b2 = post_appointments (snd b1) now' (booking p2 doc date 34200 (Some 30))
          in http_status (fst b1) = 201 \<and> http_status (fst b2) = 201
             \<and> appointments (snd b2) = appointments db @
                  [appt (appointments_id_seq db) p1 doc date 32400 30 scheduled,
                   appt (appointments_id_seq db + 1) p2 doc date 34200 30 scheduled])"
proof -
  let ?db1 = "db\<lparr>appointments_id_seq := appointments_id_seq db + 1,
               appointments := appointments db @
                 [appt (appointments_id_seq db) p1 doc date 32400 30 scheduled]\<rparr>"
  have f1: "slot_free (appointments db) doc date 32400 30"
    using free by (auto simp: slot_free_def)
  have b1: "post_appointments db now (booking p1 doc date 32400 (Some 30))
            = (Created (appointments_id_seq db)
              \<lparr>req_patient_id = Some p1, req_doctor_id = Some doc,
               req_appointment_date = Some date, req_appointment_time = Some 32400,
               req_duration_minutes = Some 30,
               req_status = Some (JString ''scheduled''), req_notes = Some []\<rparr>, ?db1)"
    using post_appointments_free [of db doc date 32400 "Some 30" now p1] f1 assms(1,3,6) ids
    by (fastforce simp: time_pl_interval_def smallint_ok_def)
  have f2: "slot_free (appointments ?db1) doc date 34200 30"
    using free
    by (auto simp: slot_free_def appt_def row_end_time_def time_pl_interval_def)
  have b2: "post_appointments ?db1 now' (booking p2 doc date 34200 (Some 30))
            = (Created (appointments_id_seq db + 1)
              \<lparr>req_patient_id = Some p2, req_doctor_id = Some doc,
               req_appointment_date = Some date, req_appointment_time = Some 34200,
               req_duration_minutes = Some 30,
               req_status = Some (JString ''scheduled''), req_notes = Some []\<rparr>,
               ?db1\<lparr>appointments_id_seq := appointments_id_seq db + 1 + 1,
               appointments := appointments ?db1 @
                 [appt (appointments_id_seq db + 1) p2 doc date 34200 30 scheduled]\<rparr>)"
    using post_appointments_free [of ?db1 doc date 34200 "Some 30" now' p2] f2 assms(2,3,7) ids
    by (fastforce simp: time_pl_interval_def smallint_ok_def appt_def)
  show ?thesis
    by (simp add: b1 b2 Let_def)
qed

text \<open>
  Claim C9.  Booking 09:00 for 30 minutes and then 09:30 for 30 minutes is to succeed
  twice, and for every schedule an appointment whose interval ends exactly at the
  candidate's start, or starts exactly at the candidate's end, is never to be reported
  as a conflict.  The two bookings do succeed (the lemma above), and within the bounds
  of the booking rules a back-to-back row is never counted
  (\<open>back_to_back_not_counted\<close>).  The table is not kept within these bounds, and the claim
  fails for a row outside them.  A booking at 00:00 for 1380 minutes is created (the
  route does not act on the result of \<open>validateInput\<close>); it ends at 23:00.  A candidate
  at 23:00 for 120 minutes starts exactly there and does not overlap it.  Its end is
  01:00 in PostgreSQL's \<open>TIME\<close> arithmetic, which lies inside the row, so
  \<open>check_appointment_conflict\<close> and \<open>checkOverlap\<close> report a conflict and the route answers
  409, with an empty list of conflicting appointments.  The trigger
  \<open>trg_appt_no_overlap_check\<close> lets the same candidate pass.
\<close>

theorem back_to_back_appointment_reported_as_conflict:
  "post_appointments (clinic []) (20499 * 86400) (booking 1 1 20500 0 (Some 1380))
     = (Created 1
          \<lparr>req_patient_id = Some 1, req_doctor_id = Some 1, req_appointment_date = Some 20500,
           req_appointment_time = Some 0, req_duration_minutes = Some 1380,
           req_status = Some (JString ''scheduled''), req_notes = Some []\<rparr>,
        clinic [appt 1 1 1 20500 0 1380 scheduled])
   \<and> back_to_back (appt 1 1 1 20500 0 1380 scheduled) 82800 120
   \<and> \<not> overlaps (interval_of (appt 1 1 1 20500 0 1380 scheduled)) (82800, 120)
   \<and> check_appointment_conflict [appt 1 1 1 20500 0 1380 scheduled] 1 20500 82800 120 None
       = True
   \<and> check_appointment_conflict [] 1 20500 82800 120 None = False
   \<and> checkOverlap (clinic [appt 1 1 1 20500 0 1380 scheduled]) 1 20500 82800 120 None = True
   \<and> trg_appt_no_overlap_check [appt 1 1 1 20500 0 1380 scheduled] INSERT
         (appt 2 2 1 20500 82800 120 scheduled)
       = Inr (appt 2 2 1 20500 82800 120 scheduled)
   \<and> post_appointments (clinic [appt 1 1 1 20500 0 1380 scheduled]) (20499 * 86400)
         (booking 2 1 20500 82800 (Some 120))
       = (Time_Conflict [], clinic [appt 1 1 1 20500 0 1380 scheduled])"
proof (intro conjI)
  show "post_appointments (clinic []) (20499 * 86400) (booking 1 1 20500 0 (Some 1380))
     = (Created 1
          \<lparr>req_patient_id = Some 1, req_doctor_id = Some 1, req_appointment_date = Some 20500,
           req_appointment_time = Some 0, req_duration_minutes = Some 1380,
           req_status = Some (JString ''scheduled''), req_notes = Some []\<rparr>,
        clinic [appt 1 1 1 20500 0 1380 scheduled])"
    by (simp add: booking_def post_appointments_def validation_length_def clinic_def
        Patient_findById_def Doctor_findById_def booking_conflict_def
        check_appointment_conflict_def Appointment_create_def smallint_ok_def
        status_of_param_def status_of_string_def insert_appointment_def
        trg_appt_no_overlap_check_def trg_appt_no_past_check_def violates_unique_on_insert_def
        references_ok_def trim_def appt_def Let_def)
  show "back_to_back (appt 1 1 1 20500 0 1380 scheduled) 82800 120"
    by (simp add: back_to_back_def appt_def)
  show "\<not> overlaps (interval_of (appt 1 1 1 20500 0 1380 scheduled)) (82800, 120)"
    by (simp add: overlaps_def interval_of_def appt_def)
  show "check_appointment_conflict [appt 1 1 1 20500 0 1380 scheduled] 1 20500 82800 120 None
       = True"
    by (simp add: check_appointment_conflict_def appt_def status_not_cancelled_def
        row_end_time_def time_pl_interval_def)
  show "check_appointment_conflict [] 1 20500 82800 120 None = False"
    by (simp add: check_appointment_conflict_def)
  show "checkOverlap (clinic [appt 1 1 1 20500 0 1380 scheduled]) 1 20500 82800 120 None = True"
    by (simp add: checkOverlap_def clinic_def appt_def status_not_cancelled_def
        row_end_time_def time_pl_interval_def)
  show "trg_appt_no_overlap_check [appt 1 1 1 20500 0 1380 scheduled] INSERT
         (appt 2 2 1 20500 82800 120 scheduled)
       = Inr (appt 2 2 1 20500 82800 120 scheduled)"
    by (simp add: trg_appt_no_overlap_check_def appt_def status_not_cancelled_def
        row_end_time_def time_pl_interval_def)
  show "post_appointments (clinic [appt 1 1 1 20500 0 1380 scheduled]) (20499 * 86400)
         (booking 2 1 20500 82800 (Some 120))
       = (Time_Conflict [], clinic [appt 1 1 1 20500 0 1380 scheduled])"
    by (simp add: booking_def post_appointments_def validation_length_def clinic_def
        Patient_findById_def Doctor_findById_def booking_conflict_def conflicting_rows_def
        check_appointment_conflict_def appt_def status_not_cancelled_def row_end_time_def
        time_pl_interval_def Let_def)
qed

section \<open>The default duration\<close>

text \<open>
  Claim C10.  A booking request that omits \<open>duration_minutes\<close> is handled exactly as the
  request with \<open>duration_minutes = 30\<close>, by the booking route and by
  \<open>Appointment.create\<close>; when the route answers 201, the response and the stored row have
  the duration 30.
\<close>

theorem omitted_duration_defaults_to_30:
  assumes "req_duration_minutes body = None"
  shows "post_appointments db now body
           = post_appointments db now (body\<lparr>req_duration_minutes := Some 30\<rparr>)
       \<and> Appointment_create db now body
           = Appointment_create db now (body\<lparr>req_duration_minutes := Some 30\<rparr>)
       \<and> (\<forall>i data db'. post_appointments db now body = (Created i data, db') \<longrightarrow>
             req_duration_minutes data = Some 30
             \<and> (\<exists>a \<in> set (appointments db'). appt_id a = i \<and> duration_minutes a = 30))"
proof (intro conjI allI impI)
  show "post_appointments db now body
           = post_appointments db now (body\<lparr>req_duration_minutes := Some 30\<rparr>)"
    using assms by (simp add: post_appointments_def Let_def split: option.split)
  show "Appointment_create db now body
           = Appointment_create db now (body\<lparr>req_duration_minutes := Some 30\<rparr>)"
    using assms by (simp add: Appointment_create_def split: option.split sum.split)
next
  fix i data db'
  assume "post_appointments db now body = (Created i data, db')"
  from post_appointments_Created_row [OF this] assms
  show "req_duration_minutes data = Some 30" 
    and "\<exists>a \<in> set (appointments db'). appt_id a = i \<and> duration_minutes a = 30"
    by simp_all
qed

theorem omitted_duration_defaults_to_30_witness:
  "req_duration_minutes (booking 1 1 20500 32400 None) = None
   \<and> post_appointments (clinic []) (20499 * 86400) (booking 1 1 20500 32400 None)
     = (Created 1
          \<lparr>req_patient_id = Some 1, req_doctor_id = Some 1, req_appointment_date = Some 20500,
           req_appointment_time = Some 32400, req_duration_minutes = Some 30,
           req_status = Some (JString ''scheduled''), req_notes = Some []\<rparr>,
        (clinic [appt 1 1 1 20500 32400 30 scheduled])\<lparr>appointments_id_seq := 2\<rparr>)"
proof -
  have h: "req_duration_minutes (booking 1 1 20500 32400 None) = None"
    by (simp add: booking_def)
  have "post_appointments (clinic []) (20499 * 86400) (booking 1 1 20500 32400 (Some 30))
     = (Created 1
          \<lparr>req_patient_id = Some 1, req_doctor_id = Some 1, req_appointment_date = Some 20500,
           req_appointment_time = Some 32400, req_duration_minutes = Some 30,
           req_status = Some (JString ''scheduled''), req_notes = Some []\<rparr>,
        (clinic [appt 1 1 1 20500 32400 30 scheduled])\<lparr>appointments_id_seq := 2\<rparr>)"
    by (simp add: booking_def post_appointments_def validation_length_def clinic_def
        Patient_findById_def Doctor_findById_def booking_conflict_def
        check_appointment_conflict_def Appointment_create_def smallint_ok_def
        status_of_param_def status_of_string_def insert_appointment_def trg_appt_no_overlap_check_def
        trg_appt_no_past_check_def violates_unique_on_insert_def references_ok_def trim_def
        appt_def Let_def)
  moreover have "booking 1 1 20500 32400 None\<lparr>req_duration_minutes := Some 30\<rparr>
      = booking 1 1 20500 32400 (Some 30)"
    by (simp add: booking_def)
  ultimately show ?thesis
    using h omitted_duration_defaults_to_30 [OF h, of "clinic []" "20499 * 86400"] by simp
qed

section \<open>Validation in the booking route\<close>

lemma handleDatabaseError_is_Database_Error:
  "\<exists>code tag. handleDatabaseError e = Database_Error code tag"
  by (cases e) auto

lemma create_response_not_Validation_Failed:
  fixes x :: "(db_error + int) \<times> database"
  shows "fst (case x of (Inl err, db') \<Rightarrow> (handleDatabaseError err, db')
                | (Inr appointmentId, db') \<Rightarrow> (Created appointmentId data, db'))
         \<noteq> Validation_Failed es"
proof (cases x)
  case (Pair r db1)
  show ?thesis
  proof (cases r)
    case (Inl e)
    obtain code tag where "handleDatabaseError e = Database_Error code tag"
      using handleDatabaseError_is_Database_Error by blast
    then show ?thesis by (simp add: Pair Inl)
  next
    case (Inr i)
    then show ?thesis by (simp add: Pair)
  qed
qed

text \<open>The booking route never answers 400 \<open>VALIDATION_ERROR\<close>.\<close>

lemma post_appointments_never_Validation_Failed:
  "fst (post_appointments db now body) \<noteq> Validation_Failed es"
proof -
  let ?dur = "case req_duration_minutes body of None \<Rightarrow> 30 | Some v \<Rightarrow> v"
  let ?data = "\<lparr>req_patient_id = req_patient_id body, req_doctor_id = req_doctor_id body,
                req_appointment_date = req_appointment_date body,
                req_appointment_time = req_appointment_time body,
                req_duration_minutes = Some ?dur, req_status = Some (JString ''scheduled''),
                req_notes = Some (trim (case req_notes body of None \<Rightarrow> [] | Some v \<Rightarrow> v))\<rparr>"
  have created: "fst (case Appointment_create db now ?data of
                    (Inl err, db') \<Rightarrow> (handleDatabaseError err, db')
                  | (Inr appointmentId, db') \<Rightarrow> (Created appointmentId ?data, db'))
                 \<noteq> Validation_Failed es"
    by (rule create_response_not_Validation_Failed)
  show ?thesis
  proof (cases "Patient_findById db (req_patient_id body)")
    case None
    then show ?thesis
      by (simp add: post_appointments_def Let_def validation_length_def)
  next
    case pat: (Some patient)
    show ?thesis
    proof (cases "Doctor_findById db (req_doctor_id body)")
      case None
      then show ?thesis
        using pat by (simp add: post_appointments_def Let_def validation_length_def)
    next
      case doc: (Some doctor)
      show ?thesis
      proof (cases "booking_conflict db (fst doctor) (req_appointment_date body)
                      (req_appointment_time body) ?dur")
        case None
        then show ?thesis
          using pat doc created
          by (simp add: post_appointments_def Let_def validation_length_def)
      next
        case (Some conflict)
        then obtain cs where "conflict = Time_Conflict cs"
          using booking_conflict_is_conflict by blast
        then show ?thesis
          using pat doc Some
          by (simp add: post_appointments_def Let_def validation_length_def)
      qed
    qed
  qed
qed

text \<open>
  Claim C5.  A booking with a past date, a malformed time or a duration outside 15 to
  240 minutes is to be rejected with 400 and no appointment created.  For the duration
  5, \<open>validateInput\<close> reports the error, but the route tests \<open>.length\<close> of the returned
  object, which is \<open>undefined\<close>, so the request goes on and is booked with 201.  For a
  past date, the validation is passed over in the same way, and it is the trigger
  \<open>trg_appt_no_past_check\<close> that rejects the insert: the route answers 500
  \<open>DATABASE_ERROR\<close>, not 400.
\<close>

theorem invalid_duration_is_booked:
  "\<not> isValid (validateInput 20499 (booking 1 1 20500 32400 (Some 5)\<lparr>req_notes := Some []\<rparr>))
   \<and> errors (validateInput 20499 (booking 1 1 20500 32400 (Some 5)\<lparr>req_notes := Some []\<rparr>))
     = [''Duration must be between 15 and 240 minutes'']
   \<and> post_appointments (clinic []) (20499 * 86400) (booking 1 1 20500 32400 (Some 5))
     = (Created 1
          \<lparr>req_patient_id = Some 1, req_doctor_id = Some 1, req_appointment_date = Some 20500,
           req_appointment_time = Some 32400, req_duration_minutes = Some 5,
           req_status = Some (JString ''scheduled''), req_notes = Some []\<rparr>,
        (clinic [appt 1 1 1 20500 32400 5 scheduled])\<lparr>appointments_id_seq := 2\<rparr>)
   \<and> errors (validateInput 20499 (booking 1 1 20000 32400 (Some 30)\<lparr>req_notes := Some []\<rparr>))
     = [''Appointment date must be today or in the future'']
   \<and> post_appointments (clinic []) (20499 * 86400) (booking 1 1 20000 32400 (Some 30))
     = (Database_Error 500 ''DATABASE_ERROR'', (clinic [])\<lparr>appointments_id_seq := 2\<rparr>)"
  by (simp add: validateInput_def id_rule_def date_rule_def time_rule_def duration_rule_def notes_rule_def
      booking_def post_appointments_def validation_length_def clinic_def Patient_findById_def
      Doctor_findById_def booking_conflict_def check_appointment_conflict_def
      Appointment_create_def smallint_ok_def status_of_param_def status_of_string_def insert_appointment_def
      trg_appt_no_overlap_check_def trg_appt_no_past_check_def violates_unique_on_insert_def
      references_ok_def trim_def appt_def Let_def)

section \<open>Cancelled appointments and the unique constraint\<close>

text \<open>
  A booking at the start time of any row of that doctor and date is never created,
  whatever the row's status: the unique constraint rejects the insert.
\<close>

lemma post_appointments_existing_start:
  assumes "c \<in> set (appointments db)" and "doctor_id c = doc" and "appointment_date c = date"
    and "appointment_time c = t"
  shows "fst (post_appointments db now (booking p doc date t dur)) \<noteq> Created i data"
proof -
  let ?dur = "case dur of None \<Rightarrow> 30 | Some v \<Rightarrow> v"
  let ?data = "\<lparr>req_patient_id = Some p, req_doctor_id = Some doc,
                req_appointment_date = Some date, req_appointment_time = Some t,
                req_duration_minutes = Some ?dur, req_status = Some (JString ''scheduled''),
                req_notes = Some []\<rparr>"
  have uniq: "\<And>NEW. doctor_id NEW = doc \<Longrightarrow> appointment_date NEW = date
      \<Longrightarrow> appointment_time NEW = t \<Longrightarrow> violates_unique_on_insert (appointments db) NEW"
    using assms by (auto simp: violates_unique_on_insert_def same_doctor_datetime_def)
  have ins: "fst (insert_appointment db now (Some p) (Some doc) (Some date) (Some t)
                 ?dur (Some scheduled) []) \<noteq> Inr i"
    by (simp add: insert_appointment_def Let_def trg_appt_no_overlap_check_def
        trg_appt_no_past_check_def uniq)
  have create: "fst (Appointment_create db now ?data) \<noteq> Inr i"
    using ins by (simp add: Appointment_create_def status_of_param_def status_of_string_def Let_def)
  have created: "(case Appointment_create db now ?data of
                    (Inl err, db') \<Rightarrow> (handleDatabaseError err, db')
                  | (Inr appointmentId, db') \<Rightarrow> (Created appointmentId ?data, db'))
                 \<noteq> (Created i data, db'')" for db''
  proof (cases "Appointment_create db now ?data")
    case (Pair r db1)
    then show ?thesis
      using create handleDatabaseError_not_Created by (cases r) auto
  qed
  show ?thesis
  proof (cases "Patient_findById db (Some p)")
    case None
    then show ?thesis
      by (simp add: post_appointments_def booking_def Let_def validation_length_def)
  next
    case pat: (Some patient)
    show ?thesis
    proof (cases "Doctor_findById db (Some doc)")
      case None
      then show ?thesis
        using pat by (simp add: post_appointments_def booking_def Let_def validation_length_def)
    next
      case doc: (Some doctor)
      show ?thesis
      proof (cases "booking_conflict db (fst doctor) (Some date) (Some t) ?dur")
        case None
        have "post_appointments db now (booking p doc date t dur)
              = (case Appointment_create db now ?data of
                    (Inl err, db') \<Rightarrow> (handleDatabaseError err, db')
                  | (Inr appointmentId, db') \<Rightarrow> (Created appointmentId ?data, db'))"
          using pat doc None
          by (simp add: post_appointments_def booking_def Let_def validation_length_def trim_def)
        then show ?thesis
          using created by (metis prod.collapse)
      next
        case (Some conflict)
        then obtain cs where "conflict = Time_Conflict cs"
          using booking_conflict_is_conflict by blast
        then show ?thesis
          using pat doc Some
          by (simp add: post_appointments_def booking_def Let_def validation_length_def)
      qed
    qed
  qed
qed

text \<open>
  Claim C4.  A cancelled appointment at 09:00 for 30 minutes must not block a new
  booking at 09:00 for 30 minutes for the same doctor and date, end to end.  The
  conflict check of the route passes (it filters on the status), but the insert
  violates \<open>uq_doctor_datetime\<close>, which does not look at the status, and the route answers
  409 \<open>DUPLICATE_ENTRY\<close>; no appointment is created.
\<close>

theorem cancelled_appointment_blocks_rebooking:
  "booking_conflict (clinic [appt 1 1 1 20500 32400 30 cancelled]) 1 (Some 20500) (Some 32400) 30 = None
   \<and> post_appointments (clinic [appt 1 1 1 20500 32400 30 cancelled]) (20499 * 86400)
       (booking 2 1 20500 32400 (Some 30))
     = (Database_Error 409 ''DUPLICATE_ENTRY'',
        (clinic [appt 1 1 1 20500 32400 30 cancelled])\<lparr>appointments_id_seq := 3\<rparr>)"
  by (simp add: 
      booking_def post_appointments_def validation_length_def clinic_def Patient_findById_def
      Doctor_findById_def booking_conflict_def check_appointment_conflict_def
      status_not_cancelled_def
      Appointment_create_def smallint_ok_def status_of_param_def status_of_string_def insert_appointment_def
      trg_appt_no_overlap_check_def trg_appt_no_past_check_def violates_unique_on_insert_def
      same_doctor_datetime_def
      references_ok_def trim_def appt_def Let_def)

section \<open>The slot generator\<close>

lemma minute_loop_unfold:
  "minute_loop e h 0 s =
     s @ [\<lparr>time = timeStr h 0, available = (\<not> isBooked e h 0)\<rparr>,
          \<lparr>time = timeStr h 30, available = (\<not> isBooked e h 30)\<rparr>]"
  by simp

lemma hour_loop_step:
  "h < n \<Longrightarrow> hour_loop e n h s = hour_loop e n (Suc h) (minute_loop e h 0 s)"
  by simp

lemma hour_loop_stop: "hour_loop e n n s = s"
  by simp

lemma isBooked_overlaps:
  "isBooked (getAvailableSlots db i date) h m
   \<longleftrightarrow> (\<exists>a \<in> set (appointments db). doctor_id a = i \<and> appointment_date a = date
          \<and> status_not_cancelled a
          \<and> overlaps (int h * 3600 + int m * 60, 30) (interval_of a))"
  by (auto simp: isBooked_def getAvailableSlots_def overlaps_def interval_of_def Let_def)


lemma upt16: "[0..<16] = [0, 1, 2, 3, 4, 5, 6, 7, 8, 9, 10, 11, 12, 13, 14, 15 :: nat]"
  by code_simp

lemma hour_loop_grid:
  "hour_loop e 17 9 [] =
     map (\<lambda>(h, m). \<lparr>time = timeStr h m, available = (\<not> isBooked e h m)\<rparr>)
       [(9, 0), (9, 30), (10, 0), (10, 30), (11, 0), (11, 30), (12, 0), (12, 30),
        (13, 0), (13, 30), (14, 0), (14, 30), (15, 0), (15, 30), (16, 0), (16, 30)]"
proof -
  have step: "hour_loop e 17 h s = hour_loop e 17 (Suc h)
       (s @ [\<lparr>time = timeStr h 0, available = (\<not> isBooked e h 0)\<rparr>,
             \<lparr>time = timeStr h 30, available = (\<not> isBooked e h 30)\<rparr>])" if "h < 17" for h s
    using that by (simp only: hour_loop_step minute_loop_unfold)
  have "hour_loop e 17 9 [] = hour_loop e 17 17
     (map (\<lambda>(h, m). \<lparr>time = timeStr h m, available = (\<not> isBooked e h m)\<rparr>)
       [(9, 0), (9, 30), (10, 0), (10, 30), (11, 0), (11, 30), (12, 0), (12, 30),
        (13, 0), (13, 30), (14, 0), (14, 30), (15, 0), (15, 30), (16, 0), (16, 30)])"
    by (simp add: step del: hour_loop.simps minute_loop.simps)
  then show ?thesis
    by (simp only: hour_loop_stop)
qed

text \<open>
  What the slot generator returns, for a doctor that exists and any date: the 16 slots
  of the grid from 09:00 to 16:30, in that order, slot \<open>k\<close> being available if and only if
  no appointment of that doctor and date that the query selects (its status is set,
  and is not cancelled) has an interval overlapping the slot's half-open 30 minutes;
  partial cover is enough to make the slot unavailable.
\<close>

lemma available_slots_grid:
  assumes "i \<in> fst ` set (doctors db)"
  shows "get_available_slots db i date =
     Slot_List (map (\<lambda>k. \<lparr>time = grid_labels ! k,
                            available = (\<not> (\<exists>a \<in> set (appointments db).
                               doctor_id a = i \<and> appointment_date a = date
                               \<and> status_not_cancelled a
                               \<and> overlaps (grid_slot k) (interval_of a)))\<rparr>) [0..<16])"
proof -
  obtain dn where df: "Doctor_findById db (Some i) = Some (i, dn)"
    using find_fst_Some [OF assms] by (auto simp: Doctor_findById_def)
  have labels: "timeStr 9 0 = grid_labels ! 0" "timeStr 9 30 = grid_labels ! 1"
    "timeStr 10 0 = grid_labels ! 2" "timeStr 10 30 = grid_labels ! 3"
    "timeStr 11 0 = grid_labels ! 4" "timeStr 11 30 = grid_labels ! 5"
    "timeStr 12 0 = grid_labels ! 6" "timeStr 12 30 = grid_labels ! 7"
    "timeStr 13 0 = grid_labels ! 8" "timeStr 13 30 = grid_labels ! 9"
    "timeStr 14 0 = grid_labels ! 10" "timeStr 14 30 = grid_labels ! 11"
    "timeStr 15 0 = grid_labels ! 12" "timeStr 15 30 = grid_labels ! 13"
    "timeStr 16 0 = grid_labels ! 14" "timeStr 16 30 = grid_labels ! 15"
    by (simp_all add: timeStr_def padStart_def grid_labels_def)
  have "get_available_slots db i date = Slot_List (hour_loop (getAvailableSlots db i date) 17 9 [])"
    by (simp add: get_available_slots_def df del: hour_loop.simps)
  also have "\<dots> = Slot_List (map (\<lambda>k. \<lparr>time = grid_labels ! k,
                            available = (\<not> (\<exists>a \<in> set (appointments db).
                               doctor_id a = i \<and> appointment_date a = date
                               \<and> status_not_cancelled a
                               \<and> overlaps (grid_slot k) (interval_of a)))\<rparr>) [0..<16])"
    unfolding hour_loop_grid upt16
    by (simp add: isBooked_overlaps labels grid_slot_def)
  finally show ?thesis .
qed

text \<open>
  An instance: a 45-minute appointment at 11:00 takes the slots 11:00 and 11:30, and a
  cancelled one at 14:00 takes none.
\<close>

lemma available_slots_grid_instance:
  "1 \<in> fst ` set (doctors (clinic [appt 1 1 1 20500 39600 45 scheduled,
                                       appt 2 2 1 20500 50400 30 cancelled]))
   \<and> get_available_slots (clinic [appt 1 1 1 20500 39600 45 scheduled,
                                    appt 2 2 1 20500 50400 30 cancelled]) 1 20500
     = Slot_List
        [\<lparr>time = ''09:00:00'', available = True\<rparr>, \<lparr>time = ''09:30:00'', available = True\<rparr>,
         \<lparr>time = ''10:00:00'', available = True\<rparr>, \<lparr>time = ''10:30:00'', available = True\<rparr>,
         \<lparr>time = ''11:00:00'', available = False\<rparr>, \<lparr>time = ''11:30:00'', available = False\<rparr>,
         \<lparr>time = ''12:00:00'', available = True\<rparr>, \<lparr>time = ''12:30:00'', available = True\<rparr>,
         \<lparr>time = ''13:00:00'', available = True\<rparr>, \<lparr>time = ''13:30:00'', available = True\<rparr>,
         \<lparr>time = ''14:00:00'', available = True\<rparr>, \<lparr>time = ''14:30:00'', available = True\<rparr>,
         \<lparr>time = ''15:00:00'', available = True\<rparr>, \<lparr>time = ''15:30:00'', available = True\<rparr>,
         \<lparr>time = ''16:00:00'', available = True\<rparr>, \<lparr>time = ''16:30:00'', available = True\<rparr>]"
proof -
  have h: "1 \<in> fst ` set (doctors (clinic [appt 1 1 1 20500 39600 45 scheduled,
                                       appt 2 2 1 20500 50400 30 cancelled]))"
    by (simp add: clinic_def)
  show ?thesis
    using h available_slots_grid [OF h, of 20500]
    by (simp add: upt16 clinic_def grid_labels_def grid_slot_def overlaps_def interval_of_def
        appt_def status_not_cancelled_def)
qed

text \<open>
  Claim C8.  For every doctor and date the slot generator is to return the grid of
  30-minute slots from 09:00 to 16:30 in ascending order, and to mark a slot
  unavailable exactly when its interval overlaps that of at least one non-cancelled
  appointment of the doctor on the date.  The grid, the order and the overlap are as
  claimed (the lemma above).  The query of \<open>Doctor.getAvailableSlots\<close> selects by
  \<open>status != 'cancelled'\<close>, which is not true of a \<open>NULL\<close> status: an appointment that is
  not cancelled but whose status is \<open>NULL\<close> does not make its slot unavailable.  The
  update route stores such a status: on the scheduled appointment of 09:00 for 30
  minutes, \<open>PUT\<close> with \<open>"status": null\<close> answers 200; after it the appointment is still
  there, not cancelled, covering the slot 09:00 exactly, and the slot generator
  returns the slot 09:00 as available.
\<close>

theorem null_status_appointment_leaves_slot_available:
  "put_appointments (clinic [appt 1 1 1 20500 32400 30 scheduled]) (20499 * 86400) 1
       (no_fields\<lparr>req_status := Some JNull\<rparr>)
     = (Updated, clinic [(appt 1 1 1 20500 32400 30 scheduled)\<lparr>status := None\<rparr>])
   \<and> non_cancelled ((appt 1 1 1 20500 32400 30 scheduled)\<lparr>status := None\<rparr>)
   \<and> overlaps (grid_slot 0) (interval_of ((appt 1 1 1 20500 32400 30 scheduled)\<lparr>status := None\<rparr>))
   \<and> get_available_slots (clinic [appt 1 1 1 20500 32400 30 scheduled]) 1 20500
     = Slot_List
        [\<lparr>time = ''09:00:00'', available = False\<rparr>, \<lparr>time = ''09:30:00'', available = True\<rparr>,
         \<lparr>time = ''10:00:00'', available = True\<rparr>, \<lparr>time = ''10:30:00'', available = True\<rparr>,
         \<lparr>time = ''11:00:00'', available = True\<rparr>, \<lparr>time = ''11:30:00'', available = True\<rparr>,
         \<lparr>time = ''12:00:00'', available = True\<rparr>, \<lparr>time = ''12:30:00'', available = True\<rparr>,
         \<lparr>time = ''13:00:00'', available = True\<rparr>, \<lparr>time = ''13:30:00'', available = True\<rparr>,
         \<lparr>time = ''14:00:00'', available = True\<rparr>, \<lparr>time = ''14:30:00'', available = True\<rparr>,
         \<lparr>time = ''15:00:00'', available = True\<rparr>, \<lparr>time = ''15:30:00'', available = True\<rparr>,
         \<lparr>time = ''16:00:00'', available = True\<rparr>, \<lparr>time = ''16:30:00'', available = True\<rparr>]
   \<and> get_available_slots
         (clinic [(appt 1 1 1 20500 32400 30 scheduled)\<lparr>status := None\<rparr>]) 1 20500
     = Slot_List
        [\<lparr>time = ''09:00:00'', available = True\<rparr>, \<lparr>time = ''09:30:00'', available = True\<rparr>,
         \<lparr>time = ''10:00:00'', available = True\<rparr>, \<lparr>time = ''10:30:00'', available = True\<rparr>,
         \<lparr>time = ''11:00:00'', available = True\<rparr>, \<lparr>time = ''11:30:00'', available = True\<rparr>,
         \<lparr>time = ''12:00:00'', available = True\<rparr>, \<lparr>time = ''12:30:00'', available = True\<rparr>,
         \<lparr>time = ''13:00:00'', available = True\<rparr>, \<lparr>time = ''13:30:00'', available = True\<rparr>,
         \<lparr>time = ''14:00:00'', available = True\<rparr>, \<lparr>time = ''14:30:00'', available = True\<rparr>,
         \<lparr>time = ''15:00:00'', available = True\<rparr>, \<lparr>time = ''15:30:00'', available = True\<rparr>,
         \<lparr>time = ''16:00:00'', available = True\<rparr>, \<lparr>time = ''16:30:00'', available = True\<rparr>]"
proof (intro conjI)
  show "put_appointments (clinic [appt 1 1 1 20500 32400 30 scheduled]) (20499 * 86400) 1
       (no_fields\<lparr>req_status := Some JNull\<rparr>)
     = (Updated, clinic [(appt 1 1 1 20500 32400 30 scheduled)\<lparr>status := None\<rparr>])"
    by (simp add: put_appointments_def no_fields_def Appointment_updateById_def
        status_of_param_def update_appointment_def updated_row_def clinic_def appt_def
        trg_appt_no_overlap_check_def trg_appt_no_past_check_def violates_unique_on_update_def
        references_ok_def Let_def)
  show "non_cancelled ((appt 1 1 1 20500 32400 30 scheduled)\<lparr>status := None\<rparr>)"
    by (simp add: non_cancelled_def)
  show "overlaps (grid_slot 0) (interval_of ((appt 1 1 1 20500 32400 30 scheduled)\<lparr>status := None\<rparr>))"
    by (simp add: overlaps_def grid_slot_def interval_of_def appt_def)
  have d: "1 \<in> fst ` set (doctors (clinic rows))" for rows
    by (simp add: clinic_def)
  show "get_available_slots (clinic [appt 1 1 1 20500 32400 30 scheduled]) 1 20500
     = Slot_List
        [\<lparr>time = ''09:00:00'', available = False\<rparr>, \<lparr>time = ''09:30:00'', available = True\<rparr>,
         \<lparr>time = ''10:00:00'', available = True\<rparr>, \<lparr>time = ''10:30:00'', available = True\<rparr>,
         \<lparr>time = ''11:00:00'', available = True\<rparr>, \<lparr>time = ''11:30:00'', available = True\<rparr>,
         \<lparr>time = ''12:00:00'', available = True\<rparr>, \<lparr>time = ''12:30:00'', available = True\<rparr>,
         \<lparr>time = ''13:00:00'', available = True\<rparr>, \<lparr>time = ''13:30:00'', available = True\<rparr>,
         \<lparr>time = ''14:00:00'', available = True\<rparr>, \<lparr>time = ''14:30:00'', available = True\<rparr>,
         \<lparr>time = ''15:00:00'', available = True\<rparr>, \<lparr>time = ''15:30:00'', available = True\<rparr>,
         \<lparr>time = ''16:00:00'', available = True\<rparr>, \<lparr>time = ''16:30:00'', available = True\<rparr>]"
    unfolding available_slots_grid [OF d]
    by (simp add: upt16 clinic_def grid_labels_def grid_slot_def overlaps_def interval_of_def
        appt_def status_not_cancelled_def)
  show "get_available_slots
         (clinic [(appt 1 1 1 20500 32400 30 scheduled)\<lparr>status := None\<rparr>]) 1 20500
     = Slot_List
        [\<lparr>time = ''09:00:00'', available = True\<rparr>, \<lparr>time = ''09:30:00'', available = True\<rparr>,
         \<lparr>time = ''10:00:00'', available = True\<rparr>, \<lparr>time = ''10:30:00'', available = True\<rparr>,
         \<lparr>time = ''11:00:00'', available = True\<rparr>, \<lparr>time = ''11:30:00'', available = True\<rparr>,
         \<lparr>time = ''12:00:00'', available = True\<rparr>, \<lparr>time = ''12:30:00'', available = True\<rparr>,
         \<lparr>time = ''13:00:00'', available = True\<rparr>, \<lparr>time = ''13:30:00'', available = True\<rparr>,
         \<lparr>time = ''14:00:00'', available = True\<rparr>, \<lparr>time = ''14:30:00'', available = True\<rparr>,
         \<lparr>time = ''15:00:00'', available = True\<rparr>, \<lparr>time = ''15:30:00'', available = True\<rparr>,
         \<lparr>time = ''16:00:00'', available = True\<rparr>, \<lparr>time = ''16:30:00'', available = True\<rparr>]"
    unfolding available_slots_grid [OF d]
    by (simp add: upt16 clinic_def grid_labels_def grid_slot_def overlaps_def interval_of_def
        appt_def status_not_cancelled_def)
qed

section \<open>The status route\<close>

lemma updated_row_status_only:
  "updated_row old (no_fields\<lparr>req_status := Some (JString s)\<rparr>) (Some st) = old\<lparr>status := st\<rparr>"
  by (simp add: updated_row_def no_fields_def)

lemma valid_status_cases:
  "s \<in> set validStatuses \<Longrightarrow> \<exists>st. status_of_string s = Some st \<and> s \<noteq> []"
  by (auto simp: validStatuses_def status_of_param_def status_of_string_def)

lemma update_appointment_unchanged:
  "update_appointment db now i u st = (r, db') \<Longrightarrow> r \<noteq> Inr True \<Longrightarrow> db' = db"
  by (auto simp: update_appointment_def split: option.splits sum.splits if_splits)

lemma Appointment_updateById_unchanged:
  "Appointment_updateById db now i u = (r, db') \<Longrightarrow> r \<noteq> Inr True \<Longrightarrow> db' = db"
  using update_appointment_unchanged
  by (fastforce simp: Appointment_updateById_def split: option.splits if_splits sum.splits)

text \<open>
  Claim C3, as amended.  The claim has the status update succeed exactly on the four
  pairs scheduled to checked_in, scheduled to cancelled, checked_in to completed and
  checked_in to cancelled.  The route has one guard only: for an appointment that
  exists and a requested status among the four valid ones, it answers
  \<open>INVALID_STATUS_TRANSITION\<close> if and only if the current status is completed and the
  requested one cancelled.  Every other pair goes to the \<open>UPDATE\<close> and succeeds whenever
  the database accepts the row with the new status (its triggers reject a row whose
  start is in the past or that overlaps another appointment).  A request that does not
  succeed leaves the database as it was.
\<close>

theorem status_update_guard:
  assumes "0 < i" and "s \<in> set validStatuses" and "Appointment_findById db i = Some old"
  shows "(fst (patch_appointment_status db now i (Some s)) = Bad_Request ''INVALID_STATUS_TRANSITION''
           \<longleftrightarrow> status old = Some completed \<and> s = ''cancelled'')
       \<and> (\<not> (status old = Some completed \<and> s = ''cancelled'')
            \<and> accepts_update db now (old\<lparr>status := status_of_string s\<rparr>)
          \<longrightarrow> patch_appointment_status db now i (Some s)
              = (Status_Updated i s,
                 db\<lparr>appointments := map (\<lambda>a. if appt_id a = i
                        then old\<lparr>status := status_of_string s\<rparr> else a) (appointments db)\<rparr>))
       \<and> (fst (patch_appointment_status db now i (Some s)) \<noteq> Status_Updated i s
          \<longrightarrow> snd (patch_appointment_status db now i (Some s)) = db)"
proof -
  obtain st where st: "status_of_string s = Some st" and ne: "s \<noteq> []"
    using valid_status_cases [OF assms(2)] by blast
  have nf: "no_fields\<lparr>req_status := Some (JString s)\<rparr> \<noteq> no_fields"
    by (simp add: no_fields_def)
  have find: "find (\<lambda>a. appt_id a = i) (appointments db) = Some old"
    using assms(3) by (simp add: Appointment_findById_def)
  have upd: "Appointment_updateById db now i (no_fields\<lparr>req_status := Some (JString s)\<rparr>)
             = update_appointment db now i (no_fields\<lparr>req_status := Some (JString s)\<rparr>) (Some (Some st))"
    using nf st by (simp add: Appointment_updateById_def no_fields_def status_of_param_def)
  obtain r db' where res: "update_appointment db now i (no_fields\<lparr>req_status := Some (JString s)\<rparr>) (Some (Some st)) = (r, db')"
    by fastforce
  have patch: "\<not> (status old = Some completed \<and> s = ''cancelled'') \<Longrightarrow>
      patch_appointment_status db now i (Some s)
      = (case r of Inl err \<Rightarrow> (handleDatabaseError err, db')
         | Inr updated \<Rightarrow> if \<not> updated then (Not_Found ''APPOINTMENT_NOT_FOUND'', db')
                          else (Status_Updated i s, db'))"
    using assms ne upd res
    by (auto simp: patch_appointment_status_def split: sum.splits)
  have guard: "status old = Some completed \<and> s = ''cancelled'' \<Longrightarrow>
      patch_appointment_status db now i (Some s) = (Bad_Request ''INVALID_STATUS_TRANSITION'', db)"
    using assms ne by (simp add: patch_appointment_status_def)
  have c1: "fst (patch_appointment_status db now i (Some s)) = Bad_Request ''INVALID_STATUS_TRANSITION''
           \<longleftrightarrow> status old = Some completed \<and> s = ''cancelled''"
  proof (cases "status old = Some completed \<and> s = ''cancelled''")
    case True
    then show ?thesis using guard by simp
  next
    case False
    show ?thesis
    proof (cases r)
      case (Inl e)
      obtain code tag where "handleDatabaseError e = Database_Error code tag"
        using handleDatabaseError_is_Database_Error by blast
      then show ?thesis
        using False Inl patch [OF False] by simp
    next
      case (Inr updated)
      then show ?thesis
        using False patch [OF False] by simp
    qed
  qed
  have c2: "patch_appointment_status db now i (Some s)
              = (Status_Updated i s,
                 db\<lparr>appointments := map (\<lambda>a. if appt_id a = i
                        then old\<lparr>status := status_of_string s\<rparr> else a) (appointments db)\<rparr>)"
    if "\<not> (status old = Some completed \<and> s = ''cancelled'')"
      and "accepts_update db now (old\<lparr>status := status_of_string s\<rparr>)"
  proof -
    have "update_appointment db now i (no_fields\<lparr>req_status := Some (JString s)\<rparr>) (Some (Some st))
          = (Inr True, db\<lparr>appointments := map (\<lambda>a. if appt_id a = i
                        then old\<lparr>status := Some st\<rparr> else a) (appointments db)\<rparr>)"
      using that(2) find st
      by (simp add: update_appointment_def updated_row_status_only accepts_update_def)
    then show ?thesis
      using patch [OF that(1)] res st by simp
  qed
  have c3: "snd (patch_appointment_status db now i (Some s)) = db"
    if "fst (patch_appointment_status db now i (Some s)) \<noteq> Status_Updated i s"
  proof (cases "status old = Some completed \<and> s = ''cancelled''")
    case True
    then show ?thesis using guard by simp
  next
    case False
    have "r \<noteq> Inr True"
      using that patch [OF False] by auto
    then have "db' = db"
      using update_appointment_unchanged [OF res] by simp
    then show ?thesis
      using patch [OF False] by (auto split: sum.splits)
  qed
  show ?thesis
    using c1 c2 c3 by blast
qed

text \<open>An instance: scheduled to checked_in, on an appointment of the next day.\<close>

theorem status_update_guard_witness:
  "(0::int) < 1 \<and> ''checked_in'' \<in> set validStatuses
   \<and> Appointment_findById (clinic [appt 1 1 1 20500 32400 30 scheduled]) 1
       = Some (appt 1 1 1 20500 32400 30 scheduled)
   \<and> accepts_update (clinic [appt 1 1 1 20500 32400 30 scheduled]) (20499 * 86400)
       (appt 1 1 1 20500 32400 30 checked_in)
   \<and> patch_appointment_status (clinic [appt 1 1 1 20500 32400 30 scheduled]) (20499 * 86400) 1
       (Some ''checked_in'')
     = (Status_Updated 1 ''checked_in'', clinic [appt 1 1 1 20500 32400 30 checked_in])"
proof -
  let ?db = "clinic [appt 1 1 1 20500 32400 30 scheduled]"
  let ?old = "appt 1 1 1 20500 32400 30 scheduled"
  have h1: "(0::int) < 1" by simp
  have h2: "''checked_in'' \<in> set validStatuses" by (simp add: validStatuses_def)
  have h3: "Appointment_findById ?db 1 = Some ?old"
    by (simp add: Appointment_findById_def clinic_def appt_def)
  have new: "?old\<lparr>status := status_of_string ''checked_in''\<rparr> = appt 1 1 1 20500 32400 30 checked_in"
    by (simp add: appt_def status_of_param_def status_of_string_def)
  have h4: "accepts_update ?db (20499 * 86400) (appt 1 1 1 20500 32400 30 checked_in)"
    by (simp add: accepts_update_def clinic_def appt_def trg_appt_no_overlap_check_def
        trg_appt_no_past_check_def violates_unique_on_update_def references_ok_def Let_def)
  have h5: "\<not> (status ?old = Some completed \<and> ''checked_in'' = ''cancelled'')"
    by (simp add: appt_def)
  have db': "?db\<lparr>appointments := map (\<lambda>a. if appt_id a = 1
                        then appt 1 1 1 20500 32400 30 checked_in else a) (appointments ?db)\<rparr>
             = clinic [appt 1 1 1 20500 32400 30 checked_in]"
    by (simp add: clinic_def appt_def)
  from status_update_guard [OF h1 h2 h3, of "20499 * 86400"] h4 h5
  have "patch_appointment_status ?db (20499 * 86400) 1 (Some ''checked_in'')
     = (Status_Updated 1 ''checked_in'', clinic [appt 1 1 1 20500 32400 30 checked_in])"
    unfolding new db' by blast
  then show ?thesis
    using h1 h2 h3 h4 by blast
qed

text \<open>
  The claim fails on the code: a cancelled appointment and a completed appointment are
  set back to scheduled, and a scheduled appointment is completed without check-in.
\<close>

theorem status_updates_outside_the_table_succeed:
  "patch_appointment_status (clinic [appt 1 1 1 20500 32400 30 cancelled]) (20499 * 86400) 1
     (Some ''scheduled'')
   = (Status_Updated 1 ''scheduled'', clinic [appt 1 1 1 20500 32400 30 scheduled])
   \<and> patch_appointment_status (clinic [appt 1 1 1 20500 32400 30 completed]) (20499 * 86400) 1
     (Some ''scheduled'')
   = (Status_Updated 1 ''scheduled'', clinic [appt 1 1 1 20500 32400 30 scheduled])
   \<and> patch_appointment_status (clinic [appt 1 1 1 20500 32400 30 scheduled]) (20499 * 86400) 1
     (Some ''completed'')
   = (Status_Updated 1 ''completed'', clinic [appt 1 1 1 20500 32400 30 completed])"
  by (simp add: patch_appointment_status_def validStatuses_def Appointment_findById_def clinic_def
      appt_def Appointment_updateById_def no_fields_def status_of_param_def status_of_string_def
      update_appointment_def updated_row_def trg_appt_no_overlap_check_def
      trg_appt_no_past_check_def violates_unique_on_update_def references_ok_def Let_def)

section \<open>The update route and the no-overlap invariant\<close>

lemma overlaps_sym: "overlaps a b = overlaps b a"
  by (auto simp: overlaps_def)

lemma no_overlap_invariant_iff:
  "no_overlap_invariant rows \<longleftrightarrow>
     (\<forall>a \<in> set rows. \<forall>b \<in> set rows.
        appt_id a \<noteq> appt_id b \<and> doctor_id a = doctor_id b
        \<and> appointment_date a = appointment_date b
        \<and> non_cancelled a \<and> non_cancelled b
        \<longrightarrow> \<not> overlaps (interval_of a) (interval_of b))"
  by (auto simp: no_overlap_invariant_def)

text \<open>On a row whose status is set, the SQL condition is the specification's notion.\<close>

lemma status_not_cancelled_non_cancelled:
  "status a \<noteq> None \<Longrightarrow> status_not_cancelled a = non_cancelled a"
  by (auto simp: status_not_cancelled_def non_cancelled_def split: option.splits)

lemma trigger_pass_no_overlap:
  assumes "trg_appt_no_overlap_check rows UPDATE NEW = Inr NEW'"
    and "b \<in> set rows" and "appt_id b \<noteq> appt_id NEW" and "doctor_id b = doctor_id NEW"
    and "appointment_date b = appointment_date NEW" and "status_not_cancelled b"
    and "ends_before_midnight b" and "ends_before_midnight NEW"
  shows "\<not> overlaps (interval_of b) (interval_of NEW)"
proof -
  have "\<not> (row_end_time b > appointment_time NEW \<and> row_end_time NEW > appointment_time b)"
    using assms(1-6)
    by (auto simp: trg_appt_no_overlap_check_def Let_def filter_empty_conv row_end_time_def
        split: if_splits)
  then show ?thesis
    using assms(7,8) by (auto simp: row_end_time_same_day overlaps_def interval_of_def)
qed

lemma update_appointment_result:
  assumes "update_appointment db now i u st = (Inr True, db')"
  shows "\<exists>old. find (\<lambda>a. appt_id a = i) (appointments db) = Some old
         \<and> accepts_update db now (updated_row old u st)
         \<and> appointments db' = map (\<lambda>a. if appt_id a = i then updated_row old u st else a)
              (appointments db)"
  using assms
  by (auto simp: update_appointment_def accepts_update_def trg_appt_no_overlap_check_def
      trg_appt_no_past_check_def Let_def split: option.splits sum.splits if_splits)

lemma updated_row_id: "appt_id (updated_row old u st) = appt_id old"
  by (simp add: updated_row_def)

lemma find_id: "find (\<lambda>a. appt_id a = i) rows = Some old \<Longrightarrow> appt_id old = i \<and> old \<in> set rows"
  by (auto simp: find_Some_iff)

text \<open>
  How far the trigger protects the invariant.  An \<open>UPDATE\<close> keeps it when every row of
  the resulting table has its status set and ends before midnight: the trigger has
  compared the new row with every other row of the doctor and date, and on such rows
  its comparison is the overlap of the intervals.  (Outside these rows it is not: the
  theorem of claim C6 below has rows that reach midnight.)
\<close>

lemma update_appointment_invariant:
  assumes ok: "update_appointment db now i u st = (r, db')"
    and inv: "no_overlap_invariant (appointments db)"
    and seen: "\<forall>a \<in> set (appointments db'). status a \<noteq> None \<and> ends_before_midnight a"
  shows "no_overlap_invariant (appointments db')"
proof (cases "r = Inr True")
  case False
  then have "db' = db" using update_appointment_unchanged [OF ok] by simp
  then show ?thesis using inv by simp
next
  case True
  then obtain old where f: "find (\<lambda>a. appt_id a = i) (appointments db) = Some old"
    and acc: "accepts_update db now (updated_row old u st)"
    and rows: "appointments db' = map (\<lambda>a. if appt_id a = i then updated_row old u st else a)
              (appointments db)"
    using update_appointment_result ok by blast
  let ?NEW = "updated_row old u st"
  have idN: "appt_id ?NEW = i"
    using find_id [OF f] by (simp add: updated_row_id)
  have newin: "?NEW \<in> set (appointments db')"
    using find_id [OF f] rows by force
  have trg: "trg_appt_no_overlap_check (appointments db) UPDATE ?NEW = Inr ?NEW"
    using acc by (simp add: accepts_update_def)
  have mem: "a = ?NEW \<or> (a \<in> set (appointments db) \<and> appt_id a \<noteq> i)"
    if "a \<in> set (appointments db')" for a
    using that rows by auto
  have other: "\<not> overlaps (interval_of b) (interval_of ?NEW)"
    if "b \<in> set (appointments db)" "appt_id b \<noteq> i" "doctor_id b = doctor_id ?NEW"
      "appointment_date b = appointment_date ?NEW" "non_cancelled b" for b
  proof -
    have "b \<in> set (appointments db')" using that(1,2) rows by force
    then have b: "status b \<noteq> None" "ends_before_midnight b" using seen by blast+
    have s: "status_not_cancelled b"
      using b(1) that(5) by (simp add: status_not_cancelled_non_cancelled)
    have "ends_before_midnight ?NEW" using seen newin by blast
    then show ?thesis
      using trigger_pass_no_overlap [OF trg that(1) _ that(3,4) s b(2)] that(2) idN by simp
  qed
  show ?thesis
    unfolding no_overlap_invariant_iff
  proof (intro ballI impI)
    fix a b
    assume a: "a \<in> set (appointments db')" and b: "b \<in> set (appointments db')"
      and h: "appt_id a \<noteq> appt_id b \<and> doctor_id a = doctor_id b
        \<and> appointment_date a = appointment_date b
        \<and> non_cancelled a \<and> non_cancelled b"
    consider (new_a) "a = ?NEW" "b \<in> set (appointments db)" "appt_id b \<noteq> i"
      | (new_b) "b = ?NEW" "a \<in> set (appointments db)" "appt_id a \<noteq> i"
      | (old) "a \<in> set (appointments db)" "b \<in> set (appointments db)"
      using mem [OF a] mem [OF b] h idN by auto
    then show "\<not> overlaps (interval_of a) (interval_of b)"
    proof cases
      case new_a
      then show ?thesis using other [of b] h by (simp add: overlaps_sym)
    next
      case new_b
      then show ?thesis using other [of a] h by simp
    next
      case old
      then show ?thesis using inv h unfolding no_overlap_invariant_iff by blast
    qed
  qed
qed

lemma Appointment_updateById_Inr_True:
  assumes "Appointment_updateById db now i u = (Inr True, db')"
  shows "\<exists>st. update_appointment db now i u st = (Inr True, db')"
  using assms
  by (auto simp: Appointment_updateById_def split: option.splits if_splits sum.splits)

lemma put_appointments_cases:
  assumes "put_appointments db now i body = (resp, db')"
  shows "(resp \<noteq> Updated \<and> db' = db)
       \<or> (resp = Updated \<and> Appointment_updateById db now i body = (Inr True, db'))"
proof (cases "Appointment_updateById db now i body")
  case (Pair r db1)
  show ?thesis
  proof (cases "r = Inr True")
    case True
    then show ?thesis
      using assms Pair by (auto simp: put_appointments_def Let_def split: if_splits)
  next
    case False
    then have "db1 = db"
      using Appointment_updateById_unchanged [OF Pair] by simp
    then show ?thesis
      using assms Pair False
      by (auto simp: put_appointments_def Let_def split: if_splits sum.splits)
  qed
qed

lemma put_appointments_route_check:
  assumes "put_appointments db now i body = (Updated, db')"
    and "req_doctor_id body = Some d" and "d \<noteq> 0" and "req_appointment_date body = Some date"
    and "req_appointment_time body = Some t" and "req_duration_minutes body = Some dur"
    and "dur \<noteq> 0"
  shows "\<not> checkOverlap db d date t dur (Some i)"
  using assms by (auto simp: put_appointments_def truthy_def Let_def split: if_splits)

text \<open>
  Without doctor, date, time and duration all supplied, the route's answer is that of
  the statement alone: \<open>checkOverlap\<close> is not consulted.
\<close>

lemma put_appointments_partial:
  assumes "\<not> (truthy (req_doctor_id body) \<and> req_appointment_date body \<noteq> None
              \<and> req_appointment_time body \<noteq> None \<and> truthy (req_duration_minutes body))"
  shows "put_appointments db now i body
         = (case Appointment_updateById db now i body of
              (Inl err, db') \<Rightarrow> (Server_Error, db')
            | (Inr updated, db') \<Rightarrow>
                if \<not> updated then (Not_Found ''Appointment not found'', db') else (Updated, db'))"
  using assms
  by (auto simp: put_appointments_def truthy_def Let_def split: option.splits)

lemma put_appointments_invariant:
  assumes "put_appointments db now i body = (resp, db')"
    and "no_overlap_invariant (appointments db)"
    and "\<forall>a \<in> set (appointments db'). status a \<noteq> None \<and> ends_before_midnight a"
  shows "no_overlap_invariant (appointments db')"
proof -
  from put_appointments_cases [OF assms(1)]
  consider (failed) "resp \<noteq> Updated" "db' = db"
    | (updated) "resp = Updated" "Appointment_updateById db now i body = (Inr True, db')"
    by blast
  then show ?thesis
  proof cases
    case failed
    then show ?thesis using assms(2) by simp
  next
    case updated
    then obtain st where upd: "update_appointment db now i body st = (Inr True, db')"
      using Appointment_updateById_Inr_True by blast
    show ?thesis
      using update_appointment_invariant [OF upd assms(2,3)] .
  qed
qed

text \<open>An instance: a partial update that moves the second appointment to 09:30.\<close>

lemma put_appointments_time_only:
  "put_appointments (clinic [appt 1 1 1 20500 32400 30 scheduled, appt 2 2 1 20500 36000 30 scheduled])
     (20499 * 86400) 2 (no_fields\<lparr>req_appointment_time := Some 34200\<rparr>)
   = (Updated, clinic [appt 1 1 1 20500 32400 30 scheduled, appt 2 2 1 20500 34200 30 scheduled])"
  by (simp add: put_appointments_def no_fields_def Appointment_updateById_def
      update_appointment_def updated_row_def clinic_def appt_def trg_appt_no_overlap_check_def
      trg_appt_no_past_check_def violates_unique_on_update_def same_doctor_datetime_def
      references_ok_def status_not_cancelled_def row_end_time_def time_pl_interval_def Let_def)

text \<open>
  Claim C6.  Every update that changes the date, the start time or the duration is to
  re-run conflict detection before it is persisted, so that the update path keeps the
  no-overlap invariant for all inputs, partial updates included.  The conflict
  detection that every update passes is the \<open>BEFORE UPDATE\<close> trigger
  \<open>trg_appt_no_overlap_check\<close>; the route's own \<open>checkOverlap\<close> runs only when the request
  supplies doctor, date, time and duration together.  Both compute end times with
  PostgreSQL's \<open>TIME\<close> arithmetic, which wraps at 24:00.

  The doctor has appointments at 23:30 and at 22:00, each of 30 minutes, and the
  invariant holds.  A partial update moves the second to 23:45 for 15 minutes.  The
  trigger computes both end times as 00:00, sees no overlap, and the update is
  persisted (\<open>checkOverlap\<close>, which the route skips here, would not have seen the overlap
  either): the doctor now has the overlapping appointments 23:30 to 24:00 and 23:45 to
  24:00, and the invariant is broken.
\<close>

theorem update_at_midnight_breaks_invariant:
  "no_overlap_invariant
     (appointments (clinic [appt 1 1 1 20500 84600 30 scheduled, appt 2 2 1 20500 79200 30 scheduled]))
   \<and> put_appointments (clinic [appt 1 1 1 20500 84600 30 scheduled, appt 2 2 1 20500 79200 30 scheduled])
       (20499 * 86400) 2 (no_fields\<lparr>req_appointment_time := Some 85500, req_duration_minutes := Some 15\<rparr>)
     = (Updated, clinic [appt 1 1 1 20500 84600 30 scheduled, appt 2 2 1 20500 85500 15 scheduled])
   \<and> checkOverlap (clinic [appt 1 1 1 20500 84600 30 scheduled, appt 2 2 1 20500 79200 30 scheduled])
       1 20500 85500 15 (Some 2) = False
   \<and> overlaps (interval_of (appt 1 1 1 20500 84600 30 scheduled))
       (interval_of (appt 2 2 1 20500 85500 15 scheduled))
   \<and> \<not> no_overlap_invariant
       (appointments (clinic [appt 1 1 1 20500 84600 30 scheduled, appt 2 2 1 20500 85500 15 scheduled]))"
proof (intro conjI)
  show "no_overlap_invariant
     (appointments (clinic [appt 1 1 1 20500 84600 30 scheduled, appt 2 2 1 20500 79200 30 scheduled]))"
    by (simp add: no_overlap_invariant_def clinic_def appt_def overlaps_def interval_of_def)
  show "put_appointments (clinic [appt 1 1 1 20500 84600 30 scheduled, appt 2 2 1 20500 79200 30 scheduled])
       (20499 * 86400) 2 (no_fields\<lparr>req_appointment_time := Some 85500, req_duration_minutes := Some 15\<rparr>)
     = (Updated, clinic [appt 1 1 1 20500 84600 30 scheduled, appt 2 2 1 20500 85500 15 scheduled])"
    by (simp add: put_appointments_def no_fields_def Appointment_updateById_def smallint_ok_def
      update_appointment_def updated_row_def clinic_def appt_def trg_appt_no_overlap_check_def
      trg_appt_no_past_check_def violates_unique_on_update_def same_doctor_datetime_def
      references_ok_def status_not_cancelled_def row_end_time_def time_pl_interval_def Let_def)
  show "checkOverlap (clinic [appt 1 1 1 20500 84600 30 scheduled, appt 2 2 1 20500 79200 30 scheduled])
       1 20500 85500 15 (Some 2) = False"
    by (simp add: checkOverlap_def clinic_def appt_def status_not_cancelled_def row_end_time_def
        time_pl_interval_def)
  show "overlaps (interval_of (appt 1 1 1 20500 84600 30 scheduled))
       (interval_of (appt 2 2 1 20500 85500 15 scheduled))"
    by (simp add: overlaps_def interval_of_def appt_def)
  show "\<not> no_overlap_invariant
       (appointments (clinic [appt 1 1 1 20500 84600 30 scheduled, appt 2 2 1 20500 85500 15 scheduled]))"
    by (simp add: no_overlap_invariant_def clinic_def appt_def overlaps_def interval_of_def
        non_cancelled_def)
qed

section \<open>Bookings one after the other\<close>

text \<open>
  The embedding handles one request at a time.  For requests handled one after the
  other, the insert trigger does for the booking route what the update trigger does
  for the update route, on the same rows: those whose status is set and that end
  before midnight.
\<close>

lemma insert_trigger_pass_no_overlap:
  assumes "trg_appt_no_overlap_check rows INSERT NEW = Inr NEW'"
    and "b \<in> set rows" and "doctor_id b = doctor_id NEW"
    and "appointment_date b = appointment_date NEW" and "status_not_cancelled b"
    and "ends_before_midnight b" and "ends_before_midnight NEW"
  shows "\<not> overlaps (interval_of b) (interval_of NEW)"
proof -
  have "\<not> (row_end_time b > appointment_time NEW \<and> row_end_time NEW > appointment_time b)"
    using assms(1-5)
    by (auto simp: trg_appt_no_overlap_check_def Let_def filter_empty_conv row_end_time_def
        split: if_splits)
  then show ?thesis
    using assms(6,7) by (auto simp: row_end_time_same_day overlaps_def interval_of_def)
qed

lemma insert_appointment_result:
  assumes "insert_appointment db now p d date t dur st n = (r, db')"
  shows "appointments db' = appointments db
       \<or> (appointments db' = appointments db @ [last (appointments db')]
             \<and> trg_appt_no_overlap_check (appointments db) INSERT (last (appointments db'))
                 = Inr (last (appointments db')))"
  using assms
  by (auto simp: insert_appointment_def Let_def trg_appt_no_overlap_check_def
      trg_appt_no_past_check_def split: option.splits if_splits sum.splits)

lemma insert_appointment_invariant:
  assumes ins: "insert_appointment db now p d date t dur st n = (r, db')"
    and inv: "no_overlap_invariant (appointments db)"
    and seen: "\<forall>a \<in> set (appointments db'). status a \<noteq> None \<and> ends_before_midnight a"
  shows "no_overlap_invariant (appointments db')"
proof -
  from insert_appointment_result [OF ins]
  consider (same) "appointments db' = appointments db"
    | (new) NEW where "appointments db' = appointments db @ [NEW]"
        "trg_appt_no_overlap_check (appointments db) INSERT NEW = Inr NEW"
    by metis
  then show ?thesis
  proof cases
    case same
    then show ?thesis using inv by simp
  next
    case new
    have other: "\<not> overlaps (interval_of b) (interval_of NEW)"
      if "b \<in> set (appointments db)" "doctor_id b = doctor_id NEW"
        "appointment_date b = appointment_date NEW" "non_cancelled b" for b
    proof -
      have b: "status b \<noteq> None" "ends_before_midnight b"
        using seen new(1) that(1) by simp_all
      have s: "status_not_cancelled b"
        using b(1) that(4) by (simp add: status_not_cancelled_non_cancelled)
      have "ends_before_midnight NEW" using seen new(1) by simp
      then show ?thesis
        using insert_trigger_pass_no_overlap [OF new(2) that(1-3) s b(2)] by simp
    qed
    show ?thesis
      unfolding no_overlap_invariant_iff new(1)
    proof (intro ballI impI)
      fix a b
      assume a: "a \<in> set (appointments db @ [NEW])" and b: "b \<in> set (appointments db @ [NEW])"
        and h: "appt_id a \<noteq> appt_id b \<and> doctor_id a = doctor_id b
          \<and> appointment_date a = appointment_date b
          \<and> non_cancelled a \<and> non_cancelled b"
      consider (new_a) "a = NEW" "b \<in> set (appointments db)"
        | (new_b) "b = NEW" "a \<in> set (appointments db)"
        | (old) "a \<in> set (appointments db)" "b \<in> set (appointments db)"
        using a b h by auto
      then show "\<not> overlaps (interval_of a) (interval_of b)"
      proof cases
        case new_a
        then show ?thesis using other [of b] h by (simp add: overlaps_sym)
      next
        case new_b
        then show ?thesis using other [of a] h by simp
      next
        case old
        then show ?thesis using inv h unfolding no_overlap_invariant_iff by blast
      qed
    qed
  qed
qed

lemma Appointment_create_rows:
  "snd (Appointment_create db now args) = db
   \<or> (\<exists>p d date t dur st n.
         snd (Appointment_create db now args) = snd (insert_appointment db now p d date t dur st n))"
proof (cases "smallint_ok (case req_duration_minutes args of None \<Rightarrow> 30 | Some v \<Rightarrow> v)")
  case False
  then show ?thesis by (simp add: Appointment_create_def Let_def)
next
  case ok: True
  show ?thesis
  proof (cases "status_of_param
      (case req_status args of None \<Rightarrow> JString ''scheduled'' | Some v \<Rightarrow> v)")
    case (Inl e)
    then show ?thesis using ok by (simp add: Appointment_create_def Let_def)
  next
    case (Inr st)
    then have "Appointment_create db now args
        = insert_appointment db now (req_patient_id args) (req_doctor_id args)
            (req_appointment_date args) (req_appointment_time args)
            (case req_duration_minutes args of None \<Rightarrow> 30 | Some v \<Rightarrow> v) st
            (case req_notes args of None \<Rightarrow> [] | Some v \<Rightarrow> v)"
      using ok by (simp add: Appointment_create_def Let_def)
    then show ?thesis by metis
  qed
qed

lemma post_appointments_rows:
  "snd (post_appointments db now body) = db
   \<or> (\<exists>args. snd (post_appointments db now body) = snd (Appointment_create db now args))"
proof (cases "Patient_findById db (req_patient_id body)")
  case None
  then show ?thesis
    by (simp add: post_appointments_def Let_def validation_length_def)
next
  case pat: (Some patient)
  show ?thesis
  proof (cases "Doctor_findById db (req_doctor_id body)")
    case None
    then show ?thesis
      using pat by (simp add: post_appointments_def Let_def validation_length_def)
  next
    case doc: (Some doctor)
    show ?thesis
    proof (cases "booking_conflict db (fst doctor) (req_appointment_date body)
                    (req_appointment_time body)
                    (case req_duration_minutes body of None \<Rightarrow> 30 | Some v \<Rightarrow> v)")
      case None
      have "snd (post_appointments db now body)
            = snd (Appointment_create db now
                \<lparr>req_patient_id = req_patient_id body, req_doctor_id = req_doctor_id body,
                 req_appointment_date = req_appointment_date body,
                 req_appointment_time = req_appointment_time body,
                 req_duration_minutes =
                   Some (case req_duration_minutes body of None \<Rightarrow> 30 | Some v \<Rightarrow> v),
                 req_status = Some (JString ''scheduled''),
                 req_notes = Some (trim (case req_notes body of None \<Rightarrow> [] | Some v \<Rightarrow> v))\<rparr>)"
        using pat doc None
        by (simp add: post_appointments_def Let_def validation_length_def
            split: prod.splits sum.splits)
      then show ?thesis by blast
    next
      case (Some conflict)
      then show ?thesis
        using pat doc by (simp add: post_appointments_def Let_def validation_length_def)
    qed
  qed
qed

lemma post_appointments_invariant:
  assumes "post_appointments db now body = (resp, db')"
    and "no_overlap_invariant (appointments db)"
    and "\<forall>a \<in> set (appointments db'). status a \<noteq> None \<and> ends_before_midnight a"
  shows "no_overlap_invariant (appointments db')"
proof -
  have d: "snd (post_appointments db now body) = db'"
    using assms(1) by simp
  consider (same) "db' = db"
    | (ins) p d date t dur st n where "db' = snd (insert_appointment db now p d date t dur st n)"
  proof -
    from post_appointments_rows [of db now body]
    consider "db' = db" | args where "db' = snd (Appointment_create db now args)"
      unfolding d by blast
    then show ?thesis
    proof cases
      case 1
      then show ?thesis by (rule that(1))
    next
      case 2
      then show ?thesis
        using Appointment_create_rows [of db now args] that by auto
    qed
  qed
  then show ?thesis
  proof cases
    case same
    then show ?thesis using assms(2) by simp
  next
    case ins
    obtain r where "insert_appointment db now p d date t dur st n = (r, db')"
      using ins by (cases "insert_appointment db now p d date t dur st n") simp
    then show ?thesis
      using assms(2,3) by (rule insert_appointment_invariant)
  qed
qed

text \<open>
  Claim C2.  After any sequence of booking requests against one doctor, the
  non-cancelled appointments of the doctor on a date are to contain no two overlapping
  intervals.  Among these sequences are those in which the requests are handled one
  after the other, and the claim fails there (how transactions interleave is outside
  this embedding).  On an empty table, a booking at 23:30 for 30 minutes is created;
  its end time is 00:00 in PostgreSQL's \<open>TIME\<close> arithmetic.  A second booking for the
  same doctor and date at 23:40 for 15 minutes is valid by \<open>validateInput\<close>, passes
  \<open>check_appointment_conflict\<close> and then the trigger \<open>trg_appt_no_overlap_check\<close> (both
  compare with the end time 00:00), and is created as well: the table holds two
  scheduled appointments of the doctor whose intervals overlap.
\<close>

theorem bookings_before_midnight_overlap:
  "isValid (validateInput 20499 (booking 1 1 20500 84600 (Some 30)\<lparr>req_notes := Some []\<rparr>))
   \<and> isValid (validateInput 20499 (booking 2 1 20500 85200 (Some 15)\<lparr>req_notes := Some []\<rparr>))
   \<and> post_appointments (clinic []) (20499 * 86400) (booking 1 1 20500 84600 (Some 30))
     = (Created 1
          \<lparr>req_patient_id = Some 1, req_doctor_id = Some 1, req_appointment_date = Some 20500,
           req_appointment_time = Some 84600, req_duration_minutes = Some 30,
           req_status = Some (JString ''scheduled''), req_notes = Some []\<rparr>,
        clinic [appt 1 1 1 20500 84600 30 scheduled])
   \<and> post_appointments (clinic [appt 1 1 1 20500 84600 30 scheduled]) (20499 * 86400)
       (booking 2 1 20500 85200 (Some 15))
     = (Created 2
          \<lparr>req_patient_id = Some 2, req_doctor_id = Some 1, req_appointment_date = Some 20500,
           req_appointment_time = Some 85200, req_duration_minutes = Some 15,
           req_status = Some (JString ''scheduled''), req_notes = Some []\<rparr>,
        clinic [appt 1 1 1 20500 84600 30 scheduled, appt 2 2 1 20500 85200 15 scheduled])
   \<and> overlaps (interval_of (appt 1 1 1 20500 84600 30 scheduled))
       (interval_of (appt 2 2 1 20500 85200 15 scheduled))
   \<and> \<not> no_overlap_invariant
       (appointments (clinic [appt 1 1 1 20500 84600 30 scheduled, appt 2 2 1 20500 85200 15 scheduled]))"
proof (intro conjI)
  show "isValid (validateInput 20499 (booking 1 1 20500 84600 (Some 30)\<lparr>req_notes := Some []\<rparr>))"
    by (simp add: validateInput_def id_rule_def date_rule_def time_rule_def duration_rule_def
        notes_rule_def booking_def)
  show "isValid (validateInput 20499 (booking 2 1 20500 85200 (Some 15)\<lparr>req_notes := Some []\<rparr>))"
    by (simp add: validateInput_def id_rule_def date_rule_def time_rule_def duration_rule_def
        notes_rule_def booking_def)
  show "post_appointments (clinic []) (20499 * 86400) (booking 1 1 20500 84600 (Some 30))
     = (Created 1
          \<lparr>req_patient_id = Some 1, req_doctor_id = Some 1, req_appointment_date = Some 20500,
           req_appointment_time = Some 84600, req_duration_minutes = Some 30,
           req_status = Some (JString ''scheduled''), req_notes = Some []\<rparr>,
        clinic [appt 1 1 1 20500 84600 30 scheduled])"
    by (simp add: booking_def post_appointments_def validation_length_def clinic_def
        Patient_findById_def Doctor_findById_def booking_conflict_def
        check_appointment_conflict_def Appointment_create_def smallint_ok_def
        status_of_param_def status_of_string_def insert_appointment_def
        trg_appt_no_overlap_check_def trg_appt_no_past_check_def violates_unique_on_insert_def
        references_ok_def trim_def appt_def Let_def)
  show "post_appointments (clinic [appt 1 1 1 20500 84600 30 scheduled]) (20499 * 86400)
       (booking 2 1 20500 85200 (Some 15))
     = (Created 2
          \<lparr>req_patient_id = Some 2, req_doctor_id = Some 1, req_appointment_date = Some 20500,
           req_appointment_time = Some 85200, req_duration_minutes = Some 15,
           req_status = Some (JString ''scheduled''), req_notes = Some []\<rparr>,
        clinic [appt 1 1 1 20500 84600 30 scheduled, appt 2 2 1 20500 85200 15 scheduled])"
    by (simp add: booking_def post_appointments_def validation_length_def clinic_def
        Patient_findById_def Doctor_findById_def booking_conflict_def
        check_appointment_conflict_def status_not_cancelled_def row_end_time_def
        time_pl_interval_def Appointment_create_def smallint_ok_def
        status_of_param_def status_of_string_def insert_appointment_def
        trg_appt_no_overlap_check_def trg_appt_no_past_check_def violates_unique_on_insert_def
        same_doctor_datetime_def references_ok_def trim_def appt_def Let_def)
  show "overlaps (interval_of (appt 1 1 1 20500 84600 30 scheduled))
       (interval_of (appt 2 2 1 20500 85200 15 scheduled))"
    by (simp add: overlaps_def interval_of_def appt_def)
  show "\<not> no_overlap_invariant
       (appointments (clinic [appt 1 1 1 20500 84600 30 scheduled, appt 2 2 1 20500 85200 15 scheduled]))"
    by (simp add: no_overlap_invariant_def clinic_def appt_def overlaps_def interval_of_def
        non_cancelled_def)
qed

end
